theory Spec2Isabelle
  imports Complex_Main "HOL-Library.Sublist" "HOL-Library.Log_Nat"
begin

section \<open>JavaScript values and the built-ins the widget relies on\<close>

text \<open>
  The widget (src/App.tsx) handles the decoded reply of the remote agent as an untyped
  value (\<^verbatim>\<open>any\<close>). A decoded JSON value is a \<open>json\<close>; \<^verbatim>\<open>undefined\<close> is
  \<open>None\<close> of \<open>json option\<close>. A number is the exact rational value of an IEEE double;
  arithmetic rounds to the nearest double (see below). A string is a list of 8-bit
  characters, read as Latin-1 code units.
  An object is the list of its key/value pairs, looked up by key.
\<close>

datatype json =
    JNull
  | JBool bool
  | JNum rat
  | JStr string
  | JArr "json list"
  | JObj "(string \<times> json) list"

type_synonym jsval = "json option"

text \<open>ToBoolean: \<^verbatim>\<open>undefined\<close>, \<^verbatim>\<open>null\<close>, \<^verbatim>\<open>false\<close>, \<^verbatim>\<open>0\<close> and \<^verbatim>\<open>""\<close> are falsy.\<close>

fun truthy :: "json \<Rightarrow> bool" where
  "truthy JNull = False"
| "truthy (JBool b) = b"
| "truthy (JNum n) = (n \<noteq> 0)"
| "truthy (JStr s) = (s \<noteq> [])"
| "truthy (JArr xs) = True"
| "truthy (JObj kvs) = True"

fun truthy_v :: "jsval \<Rightarrow> bool" where
  "truthy_v None = False"
| "truthy_v (Some v) = truthy v"

text \<open>
  \<^verbatim>\<open>v.k\<close> for the property names the widget reads (none of them is a property of a
  string, number, boolean or array prototype). Reading a property of \<^verbatim>\<open>null\<close> raises a
  TypeError; every caller below tests for that before it reads.
\<close>

fun get :: "json \<Rightarrow> string \<Rightarrow> jsval" where
  "get (JObj kvs) k = map_of kvs k"
| "get v k = None"

fun get_v :: "jsval \<Rightarrow> string \<Rightarrow> jsval" where
  "get_v None k = None"
| "get_v (Some v) k = get v k"

text \<open>\<^verbatim>\<open>a || b\<close>\<close>

definition or_js :: "jsval \<Rightarrow> jsval \<Rightarrow> jsval" where
  "or_js a b = (if truthy_v a then a else b)"

text \<open>\<^verbatim>\<open>a || b\<close> where \<open>b\<close> is a literal, hence a defined value.\<close>

definition or_else :: "jsval \<Rightarrow> json \<Rightarrow> json" where
  "or_else a b = (case a of Some v \<Rightarrow> (if truthy v then v else b) | None \<Rightarrow> b)"

subsection \<open>Numbers: IEEE doubles\<close>

text \<open>
  A finite double is \<open>m * 2 ^ e\<close> with \<open>\<bar>m\<bar> < 2 ^ 53\<close> and \<open>- 1074 \<le> e\<close>. \<open>ilog2 x\<close> is the
  binary exponent \<open>\<lfloor>log\<^sub>2 x\<rfloor>\<close> of a positive \<open>x\<close>, \<open>quantum x\<close> the distance between
  neighbouring doubles at \<open>x\<close> (down to the subnormal step \<open>2 ^ - 1074\<close>), and \<open>fl x\<close> the
  double nearest to \<open>x\<close>, the one with the even significand on a tie. Overflow to
  \<^verbatim>\<open>Infinity\<close> is left out: no arithmetic of the widget comes near the largest double.
\<close>

definition ilog2 :: "rat \<Rightarrow> int" where
  "ilog2 x =
     (let p = fst (quotient_of x); q = snd (quotient_of x); k = bitlen p - bitlen q
      in if 2 powi k \<le> x then k else k - 1)"

definition quantum :: "rat \<Rightarrow> rat" where
  "quantum x = 2 powi (max (ilog2 \<bar>x\<bar> - 52) (- 1074))"

definition round_half_even :: "rat \<Rightarrow> int" where
  "round_half_even y =
     (let n = \<lfloor>y\<rfloor>; d = y - of_int n
      in if d < 1 / 2 then n else if 1 / 2 < d then n + 1 else if even n then n else n + 1)"

definition fl :: "rat \<Rightarrow> rat" where
  "fl x = (if x = 0 then 0 else of_int (round_half_even (x / quantum x)) * quantum x)"

text \<open>
  A decimal literal of the source denotes the nearest double; \<^verbatim>\<open>+\<close> and \<^verbatim>\<open>*\<close> round their
  exact result. The doubles are the fixed points of \<open>fl\<close>.
\<close>

definition dbl :: "rat \<Rightarrow> rat" where
  "dbl q = fl q"

definition dbl_add :: "rat \<Rightarrow> rat \<Rightarrow> rat" where
  "dbl_add a b = fl (a + b)"

definition dbl_mul :: "rat \<Rightarrow> rat \<Rightarrow> rat" where
  "dbl_mul a b = fl (a * b)"

definition is_double :: "rat \<Rightarrow> bool" where
  "is_double x = (fl x = x)"

subsection \<open>Strings\<close>

text \<open>The decimal rendering of a non-negative integer, as a template literal prints it.\<close>

definition digit_char :: "nat \<Rightarrow> char" where
  "digit_char d = ''0123456789'' ! d"

fun decimal :: "nat \<Rightarrow> string" where
  "decimal n =
     (if n < 10 then [digit_char n] else decimal (n div 10) @ [digit_char (n mod 10)])"

declare decimal.simps [simp del]

text \<open>
  \<^verbatim>\<open>x.toFixed(1)\<close>: the integer \<open>n\<close> with \<open>n / 10\<close> nearest to \<open>x\<close> (the larger one
  on a tie), printed with one digit after the point; a negative \<open>x\<close> prints the sign first.
\<close>

definition toFixed1_abs :: "rat \<Rightarrow> string" where
  "toFixed1_abs x =
     (let n = nat \<lfloor>x * 10 + 1 / 2\<rfloor> in decimal (n div 10) @ ''.'' @ decimal (n mod 10))"

definition toFixed1 :: "rat \<Rightarrow> string" where
  "toFixed1 x = (if x < 0 then ''-'' @ toFixed1_abs (- x) else toFixed1_abs x)"

text \<open>
  \<^verbatim>\<open>toLowerCase\<close> on Latin-1 code units: A-Z and the accented capitals 0xC0-0xDE (without
  the multiplication sign 0xD7) move up by 32.
\<close>

definition lower_char :: "char \<Rightarrow> char" where
  "lower_char c =
     (let n = (of_char c :: nat) in
      if 65 \<le> n \<and> n \<le> 90 then char_of (n + 32)
      else if 192 \<le> n \<and> n \<le> 222 \<and> n \<noteq> 215 then char_of (n + 32)
      else c)"

definition toLowerCase :: "string \<Rightarrow> string" where
  "toLowerCase s = map lower_char s"

text \<open>\<^verbatim>\<open>s.includes(w)\<close>: \<open>w\<close> occurs in \<open>s\<close> as a contiguous run.\<close>

fun startsWith :: "string \<Rightarrow> string \<Rightarrow> bool" where
  "startsWith s [] = True"
| "startsWith [] (w # ws) = False"
| "startsWith (c # cs) (w # ws) = (c = w \<and> startsWith cs ws)"

fun includes_str :: "string \<Rightarrow> string \<Rightarrow> bool" where
  "includes_str [] w = (w = [])"
| "includes_str (c # cs) w = (startsWith (c # cs) w \<or> includes_str cs w)"

text \<open>\<^verbatim>\<open>trim\<close>: the white space of Latin-1 (TAB, LF, VT, FF, CR, SP, NBSP) goes at both ends.\<close>

definition is_ws :: "char \<Rightarrow> bool" where
  "is_ws c = ((of_char c :: nat) \<in> {9, 10, 11, 12, 13, 32, 160})"

definition trim :: "string \<Rightarrow> string" where
  "trim s = rev (dropWhile is_ws (rev (dropWhile is_ws s)))"

section \<open>The synthesized replies\<close>

text \<open>
  \<^verbatim>\<open>Math.random()\<close> and \<^verbatim>\<open>Date.now()\<close> are inputs of the model: \<open>rnd i\<close> is the
  value of the \<open>i\<close>-th call of \<^verbatim>\<open>Math.random\<close> in one run of a function, a double
  in \<open>[0, 1)\<close>, and a clock reading is a number of milliseconds.
\<close>

definition AGENT_support :: string where
  "AGENT_support = ''68e2b77f615699d53b624bca''"

definition AGENT_feedback :: string where
  "AGENT_feedback = ''68e2b78a1d634c83109811d8''"

definition HELP_TOPICS :: "string list" where
  "HELP_TOPICS = [''Orders'', ''Shipping'', ''Returns'']"

definition topics :: "string list" where
  "topics = [''Orders'', ''Shipping'', ''Returns'', ''Products'', ''Warranty'', ''Account'']"

text \<open>
  \<^verbatim>\<open>topics[Math.floor(Math.random() * topics.length)]\<close>; the index is below
  \<open>length topics\<close> for every double \<open>r\<close> in \<open>[0, 1)\<close> (\<open>topic_index_in_range\<close> below).
\<close>

definition pick_topic :: "rat \<Rightarrow> string" where
  "pick_topic r = topics ! nat \<lfloor>dbl_mul r (of_nat (length topics))\<rfloor>"

definition msg_order :: string where
  "msg_order = ''I've received your question about orders. Our ordering system is designed to be simple and secure. You can track your order status, modify shipping details, or check estimated delivery times from your account dashboard. For specific order inquiries, please provide your order number.''"

definition msg_shipping :: string where
  "msg_shipping = ''Great question about shipping! We offer various shipping options including standard, express, and overnight delivery. Most orders ship within 1-2 business days. You can track your shipment in real-time with the tracking number provided in your confirmation email.''"

definition msg_return :: string where
  "msg_return = ''I understand you have a question about returns. Our return policy allows returns within 30 days of purchase. Items should be in original condition. You can initiate a return from your account or contact customer service for assistance with the process.''"

definition msg_general :: string where
  "msg_general = ''Thank you for your question! I'm here to help you with any inquiries about our products and services. Based on your question, I'll provide you with helpful information and suggestions for your next steps.''"

definition createMockSupportResponse :: "(nat \<Rightarrow> rat) \<Rightarrow> string \<Rightarrow> json" where
  "createMockSupportResponse rnd query =
     (let isOrderRelated = includes_str (toLowerCase query) ''order'';
          isShippingRelated = includes_str (toLowerCase query) ''ship'';
          isReturnRelated = includes_str (toLowerCase query) ''return'';
          suggested_topics =
            [JStr (pick_topic (rnd 0)), JStr (pick_topic (rnd 1)), JStr (pick_topic (rnd 2))];
          message =
            (if isOrderRelated then msg_order
             else if isShippingRelated then msg_shipping
             else if isReturnRelated then msg_return
             else msg_general);
          confidence_score = dbl_add (dbl (8 / 10)) (dbl_mul (rnd 3) (dbl (19 / 100)))
      in JObj
           [(''response'', JObj
               [(''message'', JStr message),
                (''suggested_topics'', JArr suggested_topics),
                (''confidence_score'', JNum confidence_score)]),
            (''metadata'', JObj
               [(''query_type'', JStr
                   (if isOrderRelated then ''order''
                    else if isShippingRelated then ''shipping''
                    else if isReturnRelated then ''return''
                    else ''general'')),
                (''processing_time'', JStr
                   (toFixed1 (dbl_add (dbl (5 / 10)) (dbl_mul (rnd 4) (dbl (15 / 10)))) @ ''s''))])])"

definition createMockFeedbackResponse :: "(nat \<Rightarrow> rat) \<Rightarrow> nat \<Rightarrow> json" where
  "createMockFeedbackResponse rnd now =
     JObj
       [(''response'', JObj
           [(''acknowledgment'', JStr ''Thank you for your feedback!''),
            (''feedback_processed'', JBool True),
            (''feedback_type'', JStr ''positive'')]),
        (''metadata'', JObj
           [(''processing_time'', JStr
               (toFixed1 (dbl_add (dbl (1 / 10)) (dbl_mul (rnd 0) (dbl (4 / 10)))) @ ''s'')),
            (''response_id'', JStr (''resp-'' @ decimal now))])]"

section \<open>The response normalizer\<close>

text \<open>
  \<open>validateSupportAgentResponse\<close>, branch by branch. Every property read follows a
  truthiness test of the value read from, so the \<^verbatim>\<open>catch\<close> of the source is never
  entered. The function returns \<^verbatim>\<open>null\<close> (\<open>JNull\<close>) where it rejects the value.
  In the \<^verbatim>\<open>agent_response\<close> branch the field has just been found truthy, so the
  \<open>None\<close> case there is never taken.
\<close>

definition is_string :: "json \<Rightarrow> bool" where
  "is_string v = (case v of JStr s \<Rightarrow> True | _ \<Rightarrow> False)"

text \<open>\<^verbatim>\<open>typeof v === 'object'\<close>: objects, arrays and \<^verbatim>\<open>null\<close>.\<close>

definition is_object :: "json \<Rightarrow> bool" where
  "is_object v = (case v of JObj kvs \<Rightarrow> True | JArr xs \<Rightarrow> True | JNull \<Rightarrow> True | _ \<Rightarrow> False)"

definition string_of :: "json \<Rightarrow> string" where
  "string_of v = (case v of JStr s \<Rightarrow> s | _ \<Rightarrow> [])"

definition validateSupportAgentResponse :: "(nat \<Rightarrow> rat) \<Rightarrow> jsval \<Rightarrow> json" where
  "validateSupportAgentResponse rnd d =
     (case d of
        None \<Rightarrow> JNull
      | Some data \<Rightarrow>
          if \<not> truthy data then JNull
          else if truthy_v (get data ''response'') \<and> truthy_v (get data ''metadata'') then data
          else if truthy_v (get data ''agent_response'') then
            (case get data ''agent_response'' of
               Some ar \<Rightarrow>
                 JObj
                   [(''response'', or_else (get ar ''response'') ar),
                    (''metadata'', or_else (get ar ''metadata'') (JObj []))]
             | None \<Rightarrow> JNull)
          else if is_string data then createMockSupportResponse rnd (string_of data)
          else if is_object data then
            JObj
              [(''response'',
                 or_else (get data ''response'') (or_else (get data ''message'') data)),
               (''metadata'', or_else (get data ''metadata'') (JObj []))]
          else JNull)"

section \<open>The remote call\<close>

text \<open>
  What \<^verbatim>\<open>fetch\<close> and \<^verbatim>\<open>response.json()\<close> can do: the request fails, or a response
  arrives with its \<^verbatim>\<open>ok\<close> flag and a body that decodes to a JSON value or does not.
\<close>

datatype http_body = BadJson | JsonBody json

datatype fetch_outcome = NetworkError | HttpResponse bool http_body

datatype js_error = FetchFailed | HttpError | JsonSyntaxError | ParserError | TypeError

text \<open>
  The \<^verbatim>\<open>try\<close> block that picks \<open>parsedData\<close> out of the decoded body. The helper
  \<^verbatim>\<open>parseLLMJson\<close> (./utils/jsonParser) is a parameter: it returns a value, possibly
  \<^verbatim>\<open>undefined\<close>, or throws. Reading \<^verbatim>\<open>result.assistant\<close> of a \<^verbatim>\<open>null\<close> body throws
  as well; either way the \<^verbatim>\<open>catch\<close> falls back on the body itself.
\<close>

definition extract_parsedData :: "(json \<Rightarrow> js_error + jsval) \<Rightarrow> json \<Rightarrow> jsval" where
  "extract_parsedData parseLLMJson result =
     (if result = JNull then Some result
      else if truthy_v (get result ''assistant'') then
        (case get result ''assistant'' of
           Some a \<Rightarrow> (case parseLLMJson a of Inl e \<Rightarrow> Some result | Inr v \<Rightarrow> v)
         | None \<Rightarrow> Some result)
      else if truthy_v (get result ''response'') then get result ''response''
      else Some result)"

text \<open>
  \<open>callAgentAPI\<close> of src/App.tsx: the body of the \<^verbatim>\<open>try\<close>, then the \<^verbatim>\<open>catch\<close>
  around it. At most one synthesized reply is built in a run, so one \<open>rnd\<close> serves.
\<close>

definition callAgentAPI_try ::
  "(json \<Rightarrow> js_error + jsval) \<Rightarrow> (nat \<Rightarrow> rat) \<Rightarrow> nat \<Rightarrow> string \<Rightarrow> string \<Rightarrow> fetch_outcome
     \<Rightarrow> js_error + json" where
  "callAgentAPI_try parseLLMJson rnd now agentId message outcome =
     (case outcome of
        NetworkError \<Rightarrow> Inl FetchFailed
      | HttpResponse ok body \<Rightarrow>
          if \<not> ok then Inl HttpError
          else (case body of
                  BadJson \<Rightarrow> Inl JsonSyntaxError
                | JsonBody result \<Rightarrow>
                    (let parsedData = extract_parsedData parseLLMJson result in
                     if agentId = AGENT_support then
                       Inr (let v = validateSupportAgentResponse rnd parsedData in
                            if truthy v then v else createMockSupportResponse rnd message)
                     else Inr (or_else parsedData (createMockFeedbackResponse rnd now)))))"

definition callAgentAPI ::
  "(json \<Rightarrow> js_error + jsval) \<Rightarrow> (nat \<Rightarrow> rat) \<Rightarrow> nat \<Rightarrow> string \<Rightarrow> string \<Rightarrow> fetch_outcome
     \<Rightarrow> js_error + json" where
  "callAgentAPI parseLLMJson rnd now agentId message outcome =
     (case callAgentAPI_try parseLLMJson rnd now agentId message outcome of
        Inr v \<Rightarrow> Inr v
      | Inl error \<Rightarrow>
          if agentId = AGENT_support then Inr (createMockSupportResponse rnd message)
          else if agentId = AGENT_feedback then Inr (createMockFeedbackResponse rnd now)
          else Inl error)"

section \<open>The conversation controller\<close>

record message =
  id_msg :: string
  text_msg :: json
  isUser :: bool
  timestamp :: nat
  suggestedTopics :: jsval
  confidenceScore :: jsval
  queryType :: jsval
  processingTime :: jsval
  responseId :: jsval
  feedbackSubmitted :: "bool option"

record app_state =
  messages :: "message list"
  inputText :: string
  isTyping :: bool
  sessionId :: string

datatype polarity = positive | negative

text \<open>
  A request sent to the endpoint. The text of a feedback request,
  \<^verbatim>\<open>Feedback for response ${message.responseId}: ${feedbackType}\<close>, is kept as the two
  values it interpolates.
\<close>

datatype request =
    SupportRequest string string
  | FeedbackRequest string json polarity

definition initial_state :: "string \<Rightarrow> app_state" where
  "initial_state sid = \<lparr>messages = [], inputText = [], isTyping = False, sessionId = sid\<rparr>"

text \<open>
  \<open>handleSendMessage\<close> up to its \<^verbatim>\<open>await\<close> (the same text in both source files):
  the guard, the user message, the three state updates and the request. \<open>clk k\<close> is the
  \<open>k\<close>-th clock reading of the run.
\<close>

definition handleSendMessage_begin ::
  "(nat \<Rightarrow> nat) \<Rightarrow> string \<Rightarrow> app_state \<Rightarrow> app_state \<times> request list" where
  "handleSendMessage_begin clk text st =
     (if trim text = [] then (st, [])
      else
        (let userMessage =
               \<lparr>id_msg = ''msg-'' @ decimal (clk 0), text_msg = JStr (trim text), isUser = True,
                timestamp = clk 1, suggestedTopics = None, confidenceScore = None,
                queryType = None, processingTime = None, responseId = None,
                feedbackSubmitted = None\<rparr>
         in (st\<lparr>messages := messages st @ [userMessage], inputText := [], isTyping := True\<rparr>,
             [SupportRequest (sessionId st) (trim text)])))"

definition default_text :: string where
  "default_text = ''I'm here to help! Let me know what you need assistance with.''"

definition apology_text :: string where
  "apology_text = ''I apologize, but I'm having trouble processing your request right now. Please try asking again or select a help topic.''"

text \<open>The assistant message built from the resolved reply (a value other than \<^verbatim>\<open>null\<close>).\<close>

definition aiMessage_of :: "(nat \<Rightarrow> nat) \<Rightarrow> json \<Rightarrow> message" where
  "aiMessage_of clk response =
     (let responseBlock = or_else (get response ''response'') response;
          metadataBlock = or_else (get response ''metadata'') (JObj [])
      in \<lparr>id_msg = ''msg-'' @ decimal (clk 0 + 1),
          text_msg =
            or_else
              (or_js (or_js (or_js (get responseBlock ''message'') (get responseBlock ''text''))
                        (get response ''text''))
                 (get response ''message''))
              (JStr default_text),
          isUser = False,
          timestamp = clk 1,
          suggestedTopics =
            Some (or_else
                    (or_js (get responseBlock ''suggested_topics'')
                       (get responseBlock ''suggestedTopics''))
                    (JArr [])),
          confidenceScore =
            Some (or_else
                    (or_js (or_js (get responseBlock ''confidence_score'')
                              (get responseBlock ''confidenceScore''))
                       (get metadataBlock ''confidence_score''))
                    (JNum (dbl (8 / 10)))),
          queryType =
            Some (or_else
                    (or_js (or_js (get metadataBlock ''query_type'')
                              (get metadataBlock ''queryType''))
                       (get responseBlock ''query_type''))
                    (JStr ''general'')),
          processingTime =
            Some (or_else
                    (or_js (get metadataBlock ''processing_time'')
                       (get metadataBlock ''processingTime''))
                    (JStr ''0.5s'')),
          responseId =
            Some (or_else (get responseBlock ''response_id'')
                    (JStr (''resp-'' @ decimal (clk 2)))),
          feedbackSubmitted = None\<rparr>)"

text \<open>
  The apology message of the \<^verbatim>\<open>catch\<close>; \<open>k\<close> is the number of clock readings taken
  before the error was thrown.
\<close>

definition errorMessage_of :: "(nat \<Rightarrow> nat) \<Rightarrow> nat \<Rightarrow> string \<Rightarrow> message" where
  "errorMessage_of clk k apology =
     \<lparr>id_msg = ''msg-'' @ decimal (clk k + 1), text_msg = JStr apology, isUser = False,
      timestamp = clk (k + 1), suggestedTopics = None, confidenceScore = None, queryType = None,
      processingTime = None, responseId = None, feedbackSubmitted = None\<rparr>"

text \<open>
  \<open>handleSendMessage\<close> after the \<^verbatim>\<open>await\<close>: the reply becomes an assistant message;
  a thrown error, also the TypeError of \<^verbatim>\<open>Object.keys(null)\<close>, becomes the apology;
  \<^verbatim>\<open>finally\<close> clears the pending flag.
\<close>

definition handleSendMessage_resume ::
  "(nat \<Rightarrow> nat) \<Rightarrow> js_error + json \<Rightarrow> app_state \<Rightarrow> app_state" where
  "handleSendMessage_resume clk reply st =
     (let m = (case reply of
                 Inr response \<Rightarrow>
                   if response = JNull then errorMessage_of clk 0 apology_text
                   else aiMessage_of clk response
               | Inl error \<Rightarrow> errorMessage_of clk 0 apology_text)
      in st\<lparr>messages := messages st @ [m], isTyping := False\<rparr>)"

text \<open>
  One whole exchange with nothing in between. The clock argument of \<open>callAgentAPI\<close> is
  read by the synthesized feedback reply only, never on the support path.
\<close>

definition handleSendMessage ::
  "(json \<Rightarrow> js_error + jsval) \<Rightarrow> (nat \<Rightarrow> rat) \<Rightarrow> (nat \<Rightarrow> nat) \<Rightarrow> (nat \<Rightarrow> nat) \<Rightarrow> fetch_outcome
     \<Rightarrow> string \<Rightarrow> app_state \<Rightarrow> app_state \<times> request list" where
  "handleSendMessage parseLLMJson rnd clk clk' outcome text st =
     (case handleSendMessage_begin clk text st of
        (st1, []) \<Rightarrow> (st1, [])
      | (st1, r # rs) \<Rightarrow>
          (handleSendMessage_resume clk'
             (callAgentAPI parseLLMJson rnd 0 AGENT_support (trim text) outcome) st1,
           r # rs))"

text \<open>
  The continuation of src/unnamed/part_000. The fields of the assistant message are read
  with \<^verbatim>\<open>?.\<close> from \<^verbatim>\<open>response.response\<close> and \<^verbatim>\<open>response.metadata\<close>, and the response
  identifier is always made from the clock. Reading \<^verbatim>\<open>response.response\<close> of a reply that
  is \<^verbatim>\<open>null\<close> or \<^verbatim>\<open>undefined\<close> throws a TypeError, after the clock has been read once for
  the identifier; the \<^verbatim>\<open>catch\<close> then builds the apology, as it does for a rejected call.
\<close>

definition default_text_part0 :: string where
  "default_text_part0 = ''I'm here to help you with any questions you have about our products and services.''"

definition apology_text_part0 :: string where
  "apology_text_part0 = ''I apologize, but I'm having trouble processing your request right now. Please try again in a moment.''"

definition aiMessage_part0 :: "(nat \<Rightarrow> nat) \<Rightarrow> jsval \<Rightarrow> js_error + message" where
  "aiMessage_part0 clk reply =
     (case reply of
        None \<Rightarrow> Inl TypeError
      | Some response \<Rightarrow>
          if response = JNull then Inl TypeError
          else Inr
            \<lparr>id_msg = ''msg-'' @ decimal (clk 0 + 1),
             text_msg =
               or_else (get_v (get response ''response'') ''message'') (JStr default_text_part0),
             isUser = False,
             timestamp = clk 1,
             suggestedTopics =
               Some (or_else (get_v (get response ''response'') ''suggested_topics'') (JArr [])),
             confidenceScore =
               Some (or_else (get_v (get response ''response'') ''confidence_score'')
                       (JNum (dbl (8 / 10)))),
             queryType =
               Some (or_else (get_v (get response ''metadata'') ''query_type'') (JStr ''general'')),
             processingTime =
               Some (or_else (get_v (get response ''metadata'') ''processing_time'')
                       (JStr ''0.5s'')),
             responseId = Some (JStr (''resp-'' @ decimal (clk 2))),
             feedbackSubmitted = None\<rparr>)"

definition handleSendMessage_resume_part0 ::
  "(nat \<Rightarrow> nat) \<Rightarrow> js_error + jsval \<Rightarrow> app_state \<Rightarrow> app_state" where
  "handleSendMessage_resume_part0 clk reply st =
     (let m = (case reply of
                 Inr v \<Rightarrow>
                   (case aiMessage_part0 clk v of
                      Inr aiMessage \<Rightarrow> aiMessage
                    | Inl error \<Rightarrow> errorMessage_of clk 1 apology_text_part0)
               | Inl error \<Rightarrow> errorMessage_of clk 0 apology_text_part0)
      in st\<lparr>messages := messages st @ [m], isTyping := False\<rparr>)"

text \<open>
  \<open>handleFeedback\<close> (the same text in both source files) up to its \<^verbatim>\<open>await\<close>:
  \<^verbatim>\<open>find\<close> takes the first message with the identifier; the guard returns where there
  is none or where its response identifier is falsy.
\<close>

definition handleFeedback_begin ::
  "string \<Rightarrow> polarity \<Rightarrow> app_state \<Rightarrow> app_state \<times> request list" where
  "handleFeedback_begin messageId feedbackType st =
     (case find (\<lambda>m. id_msg m = messageId) (messages st) of
        None \<Rightarrow> (st, [])
      | Some message \<Rightarrow>
          (case responseId message of
             None \<Rightarrow> (st, [])
           | Some rid \<Rightarrow>
               if truthy rid then (st, [FeedbackRequest (sessionId st) rid feedbackType])
               else (st, [])))"

text \<open>
  After the \<^verbatim>\<open>await\<close>: a resolved call marks every message carrying the identifier,
  a rejected one is written to the console and changes nothing.
\<close>

definition handleFeedback_resume :: "string \<Rightarrow> js_error + 'a \<Rightarrow> app_state \<Rightarrow> app_state" where
  "handleFeedback_resume messageId reply st =
     (case reply of
        Inr response \<Rightarrow>
          st\<lparr>messages :=
               map (\<lambda>msg. if id_msg msg = messageId then msg\<lparr>feedbackSubmitted := Some True\<rparr>
                          else msg)
                 (messages st)\<rparr>
      | Inl error \<Rightarrow> st)"

text \<open>
  One whole feedback submission. The text of the request is read by the synthesized
  support reply only, so the feedback call is given the empty text.
\<close>

definition handleFeedback ::
  "(json \<Rightarrow> js_error + jsval) \<Rightarrow> (nat \<Rightarrow> rat) \<Rightarrow> nat \<Rightarrow> fetch_outcome \<Rightarrow> string \<Rightarrow> polarity
     \<Rightarrow> app_state \<Rightarrow> app_state \<times> request list" where
  "handleFeedback parseLLMJson rnd now outcome messageId feedbackType st =
     (case handleFeedback_begin messageId feedbackType st of
        (st1, []) \<Rightarrow> (st1, [])
      | (st1, r # rs) \<Rightarrow>
          (handleFeedback_resume messageId
             (callAgentAPI parseLLMJson rnd now AGENT_feedback [] outcome) st1,
           r # rs))"

subsection \<open>What the page offers\<close>

text \<open>
  The \<^verbatim>\<open>disabled\<close> attributes of the form and the condition under which the two
  feedback buttons of a message are rendered.
\<close>

definition input_disabled :: "app_state \<Rightarrow> bool" where
  "input_disabled st = isTyping st"

definition send_disabled :: "app_state \<Rightarrow> bool" where
  "send_disabled st = (isTyping st \<or> trim (inputText st) = [])"

definition shows_feedback_controls :: "message \<Rightarrow> bool" where
  "shows_feedback_controls m =
     (\<not> isUser m \<and> truthy_v (responseId m) \<and> feedbackSubmitted m \<noteq> Some True)"

text \<open>
  The user's actions that reach \<open>handleSendMessage\<close>. A form is submitted through its
  send button or through the text input, so not while the send button is disabled; the
  help-topic buttons and the suggested-topic buttons carry no \<^verbatim>\<open>disabled\<close> attribute.
\<close>

datatype ui_event = FormSubmit | HelpTopicClick string | SuggestedTopicClick string

definition handleTopicClick ::
  "(nat \<Rightarrow> nat) \<Rightarrow> string \<Rightarrow> app_state \<Rightarrow> app_state \<times> request list" where
  "handleTopicClick clk topic st = handleSendMessage_begin clk (''Tell me about '' @ topic) st"

definition ui_dispatch ::
  "(nat \<Rightarrow> nat) \<Rightarrow> ui_event \<Rightarrow> app_state \<Rightarrow> app_state \<times> request list" where
  "ui_dispatch clk ev st =
     (case ev of
        FormSubmit \<Rightarrow>
          if send_disabled st then (st, []) else handleSendMessage_begin clk (inputText st) st
      | HelpTopicClick topic \<Rightarrow> handleTopicClick clk topic st
      | SuggestedTopicClick topic \<Rightarrow> handleSendMessage_begin clk topic st)"

subsection \<open>Sessions\<close>

text \<open>
  A session is a sequence of events on the state: a send up to its \<^verbatim>\<open>await\<close>, the
  continuation of an exchange with what \<open>callAgentAPI\<close> resolved or rejected with, and
  the continuation of a feedback submission whose call resolved. Exchanges may overlap.
\<close>

datatype event =
    Send "nat \<Rightarrow> nat" string
  | Reply "nat \<Rightarrow> nat" "js_error + json"
  | FeedbackDone string

fun step :: "event \<Rightarrow> app_state \<Rightarrow> app_state" where
  "step (Send clk text) st = fst (handleSendMessage_begin clk text st)"
| "step (Reply clk reply) st = handleSendMessage_resume clk reply st"
| "step (FeedbackDone messageId) st = handleFeedback_resume messageId (Inr ()) st"

definition run :: "event list \<Rightarrow> app_state \<Rightarrow> app_state" where
  "run evs st = foldl (\<lambda>s e. step e s) st evs"

section \<open>Notions of the specification\<close>

text \<open>
  A query contains a word in any letter case when some run of the query agrees with the
  word letter by letter, each letter as written or as its ASCII capital.
\<close>

definition is_lower_ascii :: "char \<Rightarrow> bool" where
  "is_lower_ascii d = (97 \<le> (of_char d :: nat) \<and> (of_char d :: nat) \<le> 122)"

definition same_letter :: "char \<Rightarrow> char \<Rightarrow> bool" where
  "same_letter c d = (c = d \<or> (is_lower_ascii d \<and> (of_char c :: nat) + 32 = of_char d))"

fun matches_ci_at :: "string \<Rightarrow> string \<Rightarrow> bool" where
  "matches_ci_at s [] = True"
| "matches_ci_at [] (w # ws) = False"
| "matches_ci_at (c # cs) (w # ws) = (same_letter c w \<and> matches_ci_at cs ws)"

fun contains_ci :: "string \<Rightarrow> string \<Rightarrow> bool" where
  "contains_ci [] w = (w = [])"
| "contains_ci (c # cs) w = (matches_ci_at (c # cs) w \<or> contains_ci cs w)"

text \<open>The failures of a call: no response, a status outside 2xx, a body that is not JSON.\<close>

fun call_fails :: "fetch_outcome \<Rightarrow> bool" where
  "call_fails NetworkError = True"
| "call_fails (HttpResponse ok BadJson) = True"
| "call_fails (HttpResponse ok (JsonBody v)) = (\<not> ok)"

text \<open>The processing-time labels with a number of one decimal in the two ranges.\<close>

definition support_time_labels :: "string list" where
  "support_time_labels =
     [''0.5s'', ''0.6s'', ''0.7s'', ''0.8s'', ''0.9s'', ''1.0s'', ''1.1s'', ''1.2s'', ''1.3s'',
      ''1.4s'', ''1.5s'', ''1.6s'', ''1.7s'', ''1.8s'', ''1.9s'', ''2.0s'']"

definition feedback_time_labels :: "string list" where
  "feedback_time_labels = [''0.1s'', ''0.2s'', ''0.3s'', ''0.4s'', ''0.5s'']"

text \<open>Reading a decimal numeral back, digit by digit.\<close>

definition digit_value :: "char \<Rightarrow> nat" where
  "digit_value c = of_char c - 48"

definition decimal_value :: "string \<Rightarrow> nat" where
  "decimal_value s = foldl (\<lambda>a c. 10 * a + digit_value c) 0 s"

text \<open>
  The response identifiers of the assistant messages of a list, in order; the response
  identifier a reply brings along, when it has a truthy one; the events whose assistant
  message takes no identifier from the reply; and the clock readings that events turn
  into response identifiers.
\<close>

definition response_ids :: "message list \<Rightarrow> json list" where
  "response_ids ms = List.map_filter responseId (filter (\<lambda>m. \<not> isUser m) ms)"

definition supplied_id :: "json \<Rightarrow> jsval" where
  "supplied_id response =
     (let v = get (or_else (get response ''response'') response) ''response_id''
      in if truthy_v v then v else None)"

fun local_reply :: "event \<Rightarrow> bool" where
  "local_reply (Reply clk (Inr response)) = (supplied_id response = None)"
| "local_reply (Reply clk (Inl error)) = True"
| "local_reply (Send clk text) = True"
| "local_reply (FeedbackDone messageId) = True"

fun id_clock :: "event \<Rightarrow> nat list" where
  "id_clock (Reply clk (Inr response)) = (if response = JNull then [] else [clk 2])"
| "id_clock (Reply clk (Inl error)) = []"
| "id_clock (Send clk text) = []"
| "id_clock (FeedbackDone messageId) = []"

definition clock_id :: "nat \<Rightarrow> json" where
  "clock_id t = JStr (''resp-'' @ decimal t)"

text \<open>The label the specification assigns to a query: the first of the three words found.\<close>

definition scan_label :: "string \<Rightarrow> string" where
  "scan_label q =
     (if contains_ci q ''order'' then ''order''
      else if contains_ci q ''ship'' then ''shipping''
      else if contains_ci q ''return'' then ''return''
      else ''general'')"

section \<open>Sample inputs\<close>

text \<open>
  A clock that stands still during one run, a random source that always returns one half,
  and a \<^verbatim>\<open>parseLLMJson\<close> that hands its argument back.
\<close>

definition const_clock :: "nat \<Rightarrow> nat \<Rightarrow> nat" where
  "const_clock t k = t"

definition rnd_half :: "nat \<Rightarrow> rat" where
  "rnd_half i = 1 / 2"

text \<open>Two more random sources, at which rounding to doubles shows in the results.\<close>

definition rnd_five_eighths :: "nat \<Rightarrow> rat" where
  "rnd_five_eighths i = 5 / 8"

definition rnd_mixed :: "nat \<Rightarrow> rat" where
  "rnd_mixed i = (if i = 3 then 1 / 8 else 3752999689475413 / 4503599627370496)"

definition parse_same :: "json \<Rightarrow> js_error + jsval" where
  "parse_same j = Inr (Some j)"

text \<open>A reply in the canonical shape whose \<^verbatim>\<open>metadata\<close> is \<^verbatim>\<open>null\<close>, with a wrapped copy.\<close>

definition reply_null_metadata :: json where
  "reply_null_metadata =
     JObj [(''response'', JObj [(''message'', JStr ''M'')]),
           (''metadata'', JNull),
           (''agent_response'', JObj [(''response'', JObj [(''message'', JStr ''A'')])])]"

text \<open>A body whose \<^verbatim>\<open>response\<close> is the bare text of the answer.\<close>

definition body_bare_text :: json where
  "body_bare_text = JObj [(''response'', JStr ''Your parcel arrives on Monday.'')]"

text \<open>A reply in the canonical shape with its own response identifier, and a body around it.\<close>

definition reply_canonical :: json where
  "reply_canonical =
     JObj [(''response'', JObj [(''message'', JStr ''Hi''), (''response_id'', JStr ''r-1'')]),
           (''metadata'', JObj [(''query_type'', JStr ''general'')])]"

definition body_with_id :: json where
  "body_with_id = JObj [(''response'', reply_canonical)]"

text \<open>A session after one exchange whose call failed.\<close>

definition state_one_reply :: app_state where
  "state_one_reply =
     fst (handleSendMessage parse_same rnd_half (const_clock 1000) (const_clock 2000)
            NetworkError ''Where is my order?'' (initial_state ''s1''))"

text \<open>From there a next message is sent one millisecond after the reply was handled.\<close>

definition state_id_clash :: app_state where
  "state_id_clash = fst (handleSendMessage_begin (const_clock 2001) ''Thanks'' state_one_reply)"

text \<open>
  A session with one help-topic exchange in flight; then a second help-topic click; then
  both calls fail and both continuations run within the same millisecond.
\<close>

definition state_pending :: app_state where
  "state_pending =
     fst (ui_dispatch (const_clock 1000) (HelpTopicClick ''Orders'') (initial_state ''s1''))"

definition state_pending_two :: app_state where
  "state_pending_two =
     fst (ui_dispatch (const_clock 1001) (HelpTopicClick ''Shipping'') state_pending)"

definition state_first_reply :: app_state where
  "state_first_reply =
     handleSendMessage_resume (const_clock 2000)
       (callAgentAPI parse_same rnd_half 0 AGENT_support ''Tell me about Orders'' NetworkError)
       state_pending_two"

definition state_two_replies :: app_state where
  "state_two_replies =
     handleSendMessage_resume (const_clock 2000)
       (callAgentAPI parse_same rnd_half 0 AGENT_support ''Tell me about Shipping'' NetworkError)
       state_first_reply"

text \<open>Two exchanges, one after the other, each answered with \<open>body_with_id\<close>.\<close>

definition state_first_id :: app_state where
  "state_first_id =
     fst (handleSendMessage parse_same rnd_half (const_clock 1000) (const_clock 2000)
            (HttpResponse True (JsonBody body_with_id)) ''Hello'' (initial_state ''s1''))"

definition state_same_ids :: app_state where
  "state_same_ids =
     fst (handleSendMessage parse_same rnd_half (const_clock 5000) (const_clock 6000)
            (HttpResponse True (JsonBody body_with_id)) ''And returns?'' state_first_id)"

text \<open>A session of two exchanges whose replies bring no response identifier.\<close>

definition session_local :: "event list" where
  "session_local =
     [Send (const_clock 1000) ''Hello'',
      Reply (const_clock 2000) (Inr (JObj [(''message'', JStr ''Hi'')])),
      Send (const_clock 5000) ''And returns?'',
      FeedbackDone ''msg-2001'',
      Reply (const_clock 6000) (Inr (JObj [(''message'', JStr ''Hi'')]))]"

section \<open>Case-insensitive search\<close>

lemma lower_char_eq_iff:
  assumes "is_lower_ascii d"
  shows "(lower_char c = d) = same_letter c d"
proof -
  have c256: "(of_char c :: nat) < 256" by simp
  have d_rng: "97 \<le> (of_char d :: nat)" "(of_char d :: nat) \<le> 122"
    using assms by (simp_all add: is_lower_ascii_def)
  consider (cap) "65 \<le> (of_char c :: nat) \<and> (of_char c :: nat) \<le> 90"
    | (acc) "192 \<le> (of_char c :: nat)"
    | (other) "\<not> (65 \<le> (of_char c :: nat) \<and> (of_char c :: nat) \<le> 90) \<and> \<not> 192 \<le> (of_char c :: nat)"
    by linarith
  then show ?thesis
  proof cases
    case cap
    then have "lower_char c = char_of ((of_char c :: nat) + 32)"
      by (simp add: lower_char_def Let_def)
    moreover have "(char_of ((of_char c :: nat) + 32) = d) = ((of_char c :: nat) + 32 = of_char d)"
      using cap by (auto simp: char_of_eq_iff take_bit_eq_mod)
    moreover have "c \<noteq> d" using cap d_rng by auto
    ultimately show ?thesis using assms by (simp add: same_letter_def)
  next
    case acc
    have "lower_char c \<noteq> d"
    proof
      assume h: "lower_char c = d"
      show False
      proof (cases "(of_char c :: nat) \<le> 222 \<and> (of_char c :: nat) \<noteq> 215")
        case True
        then have "d = char_of ((of_char c :: nat) + 32)"
          using acc h by (simp add: lower_char_def Let_def)
        then have "(of_char d :: nat) = ((of_char c :: nat) + 32) mod 256"
          by (simp add: of_char_of)
        then show False using acc True d_rng by simp
      next
        case False
        then have "lower_char c = c" using acc by (auto simp add: lower_char_def Let_def)
        then show False using h acc d_rng by auto
      qed
    qed
    moreover have "\<not> same_letter c d" using acc d_rng by (auto simp: same_letter_def)
    ultimately show ?thesis by simp
  next
    case other
    then have "lower_char c = c" by (auto simp add: lower_char_def Let_def)
    moreover have "\<not> (of_char c :: nat) + 32 = of_char d" using other d_rng by linarith
    ultimately show ?thesis using assms by (auto simp: same_letter_def)
  qed
qed

lemma startsWith_lower:
  "list_all is_lower_ascii w \<Longrightarrow> startsWith (toLowerCase s) w = matches_ci_at s w"
proof (induction s w rule: matches_ci_at.induct)
  case (1 s) then show ?case by simp
next
  case (2 w ws) then show ?case by (simp add: toLowerCase_def)
next
  case (3 c cs w ws)
  then show ?case using lower_char_eq_iff [of w c] by (simp add: toLowerCase_def)
qed

lemma includes_lower:
  "list_all is_lower_ascii w \<Longrightarrow> includes_str (toLowerCase q) w = contains_ci q w"
proof (induction q)
  case Nil then show ?case by (simp add: toLowerCase_def)
next
  case (Cons c cs)
  have "startsWith (toLowerCase (c # cs)) w = matches_ci_at (c # cs) w"
    using Cons.prems by (rule startsWith_lower)
  moreover have "includes_str (toLowerCase cs) w = contains_ci cs w"
    using Cons by simp
  ultimately show ?case by (simp add: toLowerCase_def)
qed

lemma matches_ci_at_iff:
  "matches_ci_at s w = (\<exists>mid post. s = mid @ post \<and> list_all2 same_letter mid w)"
proof (induction s w rule: matches_ci_at.induct)
  case (1 s) then show ?case by simp
next
  case (2 w ws) then show ?case by simp
next
  case (3 c cs w ws)
  show ?case
  proof
    assume "matches_ci_at (c # cs) (w # ws)"
    then obtain mid post where "same_letter c w" "cs = mid @ post" "list_all2 same_letter mid ws"
      using 3 by auto
    then have "c # cs = (c # mid) @ post \<and> list_all2 same_letter (c # mid) (w # ws)" by simp
    then show "\<exists>mid post. c # cs = mid @ post \<and> list_all2 same_letter mid (w # ws)" by blast
  next
    assume "\<exists>mid post. c # cs = mid @ post \<and> list_all2 same_letter mid (w # ws)"
    then obtain mid post where h: "c # cs = mid @ post" "list_all2 same_letter mid (w # ws)" by blast
    then obtain m ms where "mid = m # ms" "same_letter m w" "list_all2 same_letter ms ws"
      by (auto simp: list_all2_Cons2)
    then show "matches_ci_at (c # cs) (w # ws)" using h 3 by auto
  qed
qed

lemma contains_ci_iff:
  "contains_ci q w = (\<exists>pre mid post. q = pre @ mid @ post \<and> list_all2 same_letter mid w)"
proof (induction q)
  case Nil then show ?case by auto
next
  case (Cons c cs)
  show ?case
  proof
    assume "contains_ci (c # cs) w"
    then consider "matches_ci_at (c # cs) w" | "contains_ci cs w" by auto
    then show "\<exists>pre mid post. c # cs = pre @ mid @ post \<and> list_all2 same_letter mid w"
    proof cases
      case 1
      then obtain mid post where "c # cs = [] @ mid @ post \<and> list_all2 same_letter mid w"
        by (auto simp: matches_ci_at_iff)
      then show ?thesis by blast
    next
      case 2
      then obtain pre mid post where "cs = pre @ mid @ post" "list_all2 same_letter mid w"
        using Cons by blast
      then have "c # cs = (c # pre) @ mid @ post \<and> list_all2 same_letter mid w" by simp
      then show ?thesis by blast
    qed
  next
    assume "\<exists>pre mid post. c # cs = pre @ mid @ post \<and> list_all2 same_letter mid w"
    then obtain pre mid post where h: "c # cs = pre @ mid @ post" "list_all2 same_letter mid w"
      by blast
    show "contains_ci (c # cs) w"
    proof (cases pre)
      case Nil
      then have "matches_ci_at (c # cs) w" using h by (auto simp: matches_ci_at_iff)
      then show ?thesis by simp
    next
      case (Cons p ps)
      then have "cs = ps @ mid @ post" using h by simp
      then have "contains_ci cs w" using h Cons.IH by blast
      then show ?thesis by simp
    qed
  qed
qed

section \<open>Decimal numerals\<close>

lemma digit_value_digit_char: "d < 10 \<Longrightarrow> digit_value (digit_char d) = d"
proof -
  assume "d < 10"
  then have "d \<in> set [0..<10]" by simp
  moreover have "\<forall>k \<in> set [0..<10]. digit_value (digit_char k) = k" by code_simp
  ultimately show ?thesis by blast
qed

lemma decimal_value_snoc: "decimal_value (s @ [c]) = 10 * decimal_value s + digit_value c"
  by (simp add: decimal_value_def)

lemma decimal_value_decimal: "decimal_value (decimal n) = n"
proof (induction n rule: decimal.induct)
  case (1 n)
  show ?case
  proof (cases "n < 10")
    case True
    then have "decimal n = [digit_char n]" by (subst decimal.simps) simp
    then show ?thesis using True by (simp add: decimal_value_def digit_value_digit_char)
  next
    case False
    then have "decimal n = decimal (n div 10) @ [digit_char (n mod 10)]"
      by (subst decimal.simps) simp
    then show ?thesis using False 1 by (simp add: decimal_value_snoc digit_value_digit_char)
  qed
qed

lemma decimal_inj: "decimal m = decimal n \<Longrightarrow> m = n"
  by (metis decimal_value_decimal)

section \<open>Rounding to doubles\<close>

lemma pow2_pos: "0 < (2::rat) powi k"
  by (simp add: zero_less_power_int)

lemma pow2_mono: "k \<le> l \<Longrightarrow> (2::rat) powi k \<le> 2 powi l"
  by (rule power_int_increasing) simp_all

lemma pow2_less_imp: "(2::rat) powi k < 2 powi l \<Longrightarrow> k < l"
  using pow2_mono [of l k] by (cases "k < l") auto

lemma pow2_nat: "0 \<le> k \<Longrightarrow> (2::rat) powi k = 2 ^ nat k"
  by (simp add: power_int_def)

lemma ilog2_bounds:
  assumes "0 < x"
  shows "2 powi (ilog2 x) \<le> x \<and> x < 2 powi (ilog2 x + 1)"
proof -
  obtain p q where pq: "quotient_of x = (p, q)" by (cases "quotient_of x")
  then have q: "0 < q" and x: "x = of_int p / of_int q"
    using quotient_of_denom_pos quotient_of_div by blast+
  have p: "0 < p" using assms q x by (simp add: zero_less_divide_iff)
  let ?bp = "bitlen p" and ?bq = "bitlen q"
  have bp1: "1 \<le> ?bp" and bq1: "1 \<le> ?bq"
    using p q bitlen_eq_zero_iff [of p] bitlen_eq_zero_iff [of q] bitlen_nonneg [of p]
      bitlen_nonneg [of q] by linarith+
  have plo: "(2::rat) powi (?bp - 1) \<le> of_int p" and phi: "of_int p < (2::rat) powi ?bp"
  proof -
    have "(2::int) ^ nat (?bp - 1) \<le> p" and "p < 2 ^ nat ?bp"
      using bitlen_bounds [OF p] by simp_all
    then have "(of_int ((2::int) ^ nat (?bp - 1)) :: rat) \<le> of_int p"
      and "(of_int p :: rat) < of_int (2 ^ nat ?bp)"
      by (simp_all only: of_int_le_iff of_int_less_iff)
    then show "(2::rat) powi (?bp - 1) \<le> of_int p" and "of_int p < (2::rat) powi ?bp"
      using bp1 by (simp_all add: pow2_nat)
  qed
  have qlo: "(2::rat) powi (?bq - 1) \<le> of_int q" and qhi: "of_int q < (2::rat) powi ?bq"
  proof -
    have "(2::int) ^ nat (?bq - 1) \<le> q" and "q < 2 ^ nat ?bq"
      using bitlen_bounds [OF q] by simp_all
    then have "(of_int ((2::int) ^ nat (?bq - 1)) :: rat) \<le> of_int q"
      and "(of_int q :: rat) < of_int (2 ^ nat ?bq)"
      by (simp_all only: of_int_le_iff of_int_less_iff)
    then show "(2::rat) powi (?bq - 1) \<le> of_int q" and "of_int q < (2::rat) powi ?bq"
      using bq1 by (simp_all add: pow2_nat)
  qed
  let ?k = "?bp - ?bq"
  have qpos: "(0::rat) < of_int q" using q by simp
  have up: "x < 2 powi (?k + 1)"
  proof -
    have "x * of_int q = of_int p" using x qpos by simp
    also have "\<dots> < 2 powi ?bp" by (rule phi)
    also have "\<dots> = (2::rat) powi (?k + 1) * 2 powi (?bq - 1)"
      by (simp add: power_int_add [symmetric])
    also have "\<dots> \<le> (2::rat) powi (?k + 1) * of_int q"
      using qlo pow2_pos [of "?k + 1"] by (simp add: mult_left_mono)
    finally show ?thesis using qpos by simp
  qed
  have lo: "2 powi (?k - 1) < x"
  proof -
    have "(2::rat) powi (?k - 1) * of_int q < (2::rat) powi (?k - 1) * 2 powi ?bq"
      using qhi pow2_pos [of "?k - 1"] by simp
    also have "\<dots> = (2::rat) powi (?bp - 1)" by (simp add: power_int_add [symmetric])
    also have "\<dots> \<le> of_int p" by (rule plo)
    also have "\<dots> = x * of_int q" using x qpos by simp
    finally show ?thesis using qpos by simp
  qed
  show ?thesis
  proof (cases "2 powi ?k \<le> x")
    case True
    then have "ilog2 x = ?k" by (simp add: ilog2_def pq Let_def)
    then show ?thesis using True up by simp
  next
    case False
    then have "ilog2 x = ?k - 1" by (simp add: ilog2_def pq Let_def)
    then show ?thesis using False lo by simp
  qed
qed

lemma ilog2_less: "0 < x \<Longrightarrow> x < 2 powi k \<Longrightarrow> ilog2 x < k"
  using ilog2_bounds [of x] pow2_less_imp [of "ilog2 x" k] by linarith

lemma ilog2_ge: "0 < x \<Longrightarrow> 2 powi k \<le> x \<Longrightarrow> k \<le> ilog2 x"
  using ilog2_bounds [of x] pow2_less_imp [of k "ilog2 x + 1"] by linarith

lemma quantum_pos: "0 < quantum x"
  by (simp add: quantum_def pow2_pos)

lemma quantum_eq:
  assumes "2 powi (e + 52) \<le> \<bar>x\<bar>" and "\<bar>x\<bar> < 2 powi (e + 53)" and "- 1074 \<le> e"
  shows "quantum x = 2 powi e"
proof -
  have "0 < \<bar>x\<bar>" using assms(1) pow2_pos [of "e + 52"] by linarith
  then have "ilog2 \<bar>x\<bar> = e + 52"
    using ilog2_less [of "\<bar>x\<bar>" "e + 53"] ilog2_ge [of "\<bar>x\<bar>" "e + 52"] assms by linarith
  then show ?thesis using assms(3) by (simp add: quantum_def)
qed

lemma quantum_divides:
  assumes "x \<noteq> 0" and "\<bar>x\<bar> < 2 powi (e + 53)" and "- 1074 \<le> e"
  shows "\<exists>j::nat. 2 powi e = 2 ^ j * quantum x"
proof -
  define q where "q = max (ilog2 \<bar>x\<bar> - 52) (- 1074)"
  have "ilog2 \<bar>x\<bar> < e + 53" using assms(1,2) by (intro ilog2_less) simp_all
  then have le: "q \<le> e" using assms(3) by (simp add: q_def)
  have "(2::rat) powi e = 2 powi (int (nat (e - q)) + q)" using le by simp
  also have "\<dots> = 2 powi (int (nat (e - q))) * 2 powi q"
    by (rule power_int_add) simp
  also have "\<dots> = 2 ^ nat (e - q) * 2 powi q"
    by (simp only: power_int_of_nat)
  finally show ?thesis unfolding quantum_def q_def by blast
qed

lemma round_half_even_ge: "of_int k \<le> y \<Longrightarrow> k \<le> round_half_even y"
proof -
  assume "of_int k \<le> y"
  then have "k \<le> \<lfloor>y\<rfloor>" by (simp add: le_floor_iff)
  then show ?thesis by (simp add: round_half_even_def Let_def)
qed

lemma round_half_even_le_half:
  assumes "y < of_int k + 1 / 2"
  shows "round_half_even y \<le> k"
proof -
  have "y < of_int (k + 1)" using assms by simp
  then have f: "\<lfloor>y\<rfloor> \<le> k" using floor_less_iff [of y "k + 1"] by linarith
  show ?thesis
  proof (cases "\<lfloor>y\<rfloor> = k")
    case True
    then have "y - of_int \<lfloor>y\<rfloor> < 1 / 2" using assms by simp
    then show ?thesis using True by (simp add: round_half_even_def Let_def)
  next
    case False
    then have "\<lfloor>y\<rfloor> + 1 \<le> k" using f by simp
    then show ?thesis by (auto simp add: round_half_even_def Let_def)
  qed
qed

lemma round_half_even_le: "y \<le> of_int k \<Longrightarrow> round_half_even y \<le> k"
  by (rule round_half_even_le_half) simp

lemma round_half_even_le_tie:
  assumes "y \<le> of_int k + 1 / 2" and "even k"
  shows "round_half_even y \<le> k"
proof (cases "y = of_int k + 1 / 2")
  case True
  have "\<lfloor>y\<rfloor> = k" unfolding True by (rule floor_unique) simp_all
  then show ?thesis using True assms(2) by (simp add: round_half_even_def Let_def)
next
  case False
  then show ?thesis using assms(1) by (intro round_half_even_le_half) simp
qed

lemma fl_le:
  assumes "x \<le> of_int m * 2 powi e" and "\<bar>x\<bar> < 2 powi (e + 53)" and "- 1074 \<le> e"
  shows "fl x \<le> of_int m * 2 powi e"
proof (cases "x = 0")
  case True
  then show ?thesis using assms(1) by (simp add: fl_def)
next
  case False
  obtain j :: nat where j: "2 powi e = 2 ^ j * quantum x"
    using quantum_divides [OF False assms(2,3)] by blast
  have "x / quantum x \<le> of_int (m * 2 ^ j)"
    using assms(1) quantum_pos [of x] by (simp add: j pos_divide_le_eq mult.assoc)
  then have "round_half_even (x / quantum x) \<le> m * 2 ^ j" by (rule round_half_even_le)
  then have "(of_int (round_half_even (x / quantum x)) :: rat) \<le> of_int (m * 2 ^ j)"
    by (simp only: of_int_le_iff)
  then have "of_int (round_half_even (x / quantum x)) * quantum x \<le> of_int (m * 2 ^ j) * quantum x"
    using quantum_pos [of x] by (simp only: mult_le_cancel_right_pos)
  then show ?thesis using False by (simp add: fl_def j mult.assoc)
qed

lemma fl_ge:
  assumes "of_int m * 2 powi e \<le> x" and "\<bar>x\<bar> < 2 powi (e + 53)" and "- 1074 \<le> e"
  shows "of_int m * 2 powi e \<le> fl x"
proof (cases "x = 0")
  case True
  then show ?thesis using assms(1) by (simp add: fl_def)
next
  case False
  obtain j :: nat where j: "2 powi e = 2 ^ j * quantum x"
    using quantum_divides [OF False assms(2,3)] by blast
  have "of_int (m * 2 ^ j) \<le> x / quantum x"
    using assms(1) quantum_pos [of x] by (simp add: j pos_le_divide_eq mult.assoc)
  then have "m * 2 ^ j \<le> round_half_even (x / quantum x)" by (rule round_half_even_ge)
  then have "(of_int (m * 2 ^ j) :: rat) \<le> of_int (round_half_even (x / quantum x))"
    by (simp only: of_int_le_iff)
  then have "of_int (m * 2 ^ j) * quantum x \<le> of_int (round_half_even (x / quantum x)) * quantum x"
    using quantum_pos [of x] by (simp only: mult_le_cancel_right_pos)
  then show ?thesis using False by (simp add: fl_def j mult.assoc)
qed

lemma fl_le_tie:
  assumes "x \<le> (of_int k + 1 / 2) * 2 powi e" and "even k"
    and "2 powi (e + 52) \<le> \<bar>x\<bar>" and "\<bar>x\<bar> < 2 powi (e + 53)" and "- 1074 \<le> e"
  shows "fl x \<le> of_int k * 2 powi e"
proof -
  have q: "quantum x = 2 powi e" using assms(3-5) by (rule quantum_eq)
  have "0 < \<bar>x\<bar>" using assms(3) pow2_pos [of "e + 52"] by linarith
  then have nz: "x \<noteq> 0" by simp
  have "x / quantum x \<le> of_int k + 1 / 2"
    using assms(1) pow2_pos [of e] by (simp add: q pos_divide_le_eq)
  then have "round_half_even (x / quantum x) \<le> k" using assms(2) by (rule round_half_even_le_tie)
  then have "(of_int (round_half_even (x / quantum x)) :: rat) \<le> of_int k"
    by (simp only: of_int_le_iff)
  then have "of_int (round_half_even (x / quantum x)) * quantum x \<le> of_int k * quantum x"
    using quantum_pos [of x] by (simp only: mult_le_cancel_right_pos)
  then show ?thesis using nz by (simp add: fl_def q)
qed

lemma fl_le_half:
  assumes "x < (of_int k + 1 / 2) * 2 powi e"
    and "2 powi (e + 52) \<le> \<bar>x\<bar>" and "\<bar>x\<bar> < 2 powi (e + 53)" and "- 1074 \<le> e"
  shows "fl x \<le> of_int k * 2 powi e"
proof -
  have q: "quantum x = 2 powi e" using assms(2-4) by (rule quantum_eq)
  have "0 < \<bar>x\<bar>" using assms(2) pow2_pos [of "e + 52"] by linarith
  then have nz: "x \<noteq> 0" by simp
  have "x / quantum x < of_int k + 1 / 2"
    using assms(1) pow2_pos [of e] by (simp add: q pos_divide_less_eq)
  then have "round_half_even (x / quantum x) \<le> k" by (rule round_half_even_le_half)
  then have "(of_int (round_half_even (x / quantum x)) :: rat) \<le> of_int k"
    by (simp only: of_int_le_iff)
  then have "of_int (round_half_even (x / quantum x)) * quantum x \<le> of_int k * quantum x"
    using quantum_pos [of x] by (simp only: mult_le_cancel_right_pos)
  then show ?thesis using nz by (simp add: fl_def q)
qed

lemma pow2_neg: "(2::rat) powi (- int n) = 1 / 2 ^ n"
  by (simp add: power_int_minus_divide)

lemma fl_mul_unit:
  assumes "0 \<le> r" and "r < 1" and "0 \<le> m" and "(of_int m :: rat) < 2 ^ 53" and "- 1074 \<le> e"
  shows "0 \<le> fl (r * (of_int m * 2 powi e)) \<and> fl (r * (of_int m * 2 powi e)) \<le> of_int m * 2 powi e"
proof -
  let ?d = "of_int m * (2::rat) powi e"
  have d0: "0 \<le> ?d" using assms(3) pow2_pos [of e] by simp
  have x0: "0 \<le> r * ?d" using assms(1) d0 by simp
  have "r * ?d \<le> 1 * ?d" using assms(2) d0 by (intro mult_right_mono) simp_all
  then have xd: "r * ?d \<le> ?d" by simp
  have "?d < 2 ^ 53 * 2 powi e" using assms(4) pow2_pos [of e] by simp
  also have "\<dots> = 2 powi (e + 53)"
    using power_int_add [of "2::rat" e 53] by (simp add: mult.commute)
  finally have lt: "\<bar>r * ?d\<bar> < 2 powi (e + 53)" using x0 xd by linarith
  have "of_int 0 * 2 powi e \<le> fl (r * ?d)"
    by (rule fl_ge) (use x0 lt assms(5) in simp_all)
  moreover have "fl (r * ?d) \<le> ?d" using xd lt assms(5) by (rule fl_le)
  ultimately show ?thesis by simp
qed

lemma dbl_values:
  "dbl (8 / 10) = of_int 7205759403792794 * 2 powi (- 53)"
  "dbl (19 / 100) = of_int 6845471433603154 * 2 powi (- 55)"
  "dbl (5 / 10) = of_int 4503599627370496 * 2 powi (- 53)"
  "dbl (15 / 10) = of_int 6755399441055744 * 2 powi (- 52)"
  "dbl (1 / 10) = of_int 7205759403792794 * 2 powi (- 56)"
  "dbl (4 / 10) = of_int 7205759403792794 * 2 powi (- 54)"
  by code_simp+

lemma confidence_range:
  assumes "0 \<le> r" and "r < 1"
  shows "8 / 10 \<le> dbl_add (dbl (8 / 10)) (dbl_mul r (dbl (19 / 100))) \<and>
         dbl_add (dbl (8 / 10)) (dbl_mul r (dbl (19 / 100))) \<le> 99 / 100"
proof -
  let ?y = "fl (r * (of_int 6845471433603154 * 2 powi (- 55)))"
  let ?x = "of_int 7205759403792794 * 2 powi (- 53) + ?y"
  have y: "0 \<le> ?y \<and> ?y \<le> of_int 6845471433603154 * 2 powi (- 55)"
    using assms by (intro fl_mul_unit) simp_all
  have p: "(2::rat) powi (- 53) = 1 / 2 ^ 53" "(2::rat) powi (- 55) = 1 / 2 ^ 55"
    "(2::rat) powi (- 53 + 52) = 1 / 2" "(2::rat) powi (- 53 + 53) = 1"
    using pow2_neg [of 53] pow2_neg [of 55] pow2_neg [of 1] by simp_all
  have lo: "of_int 7205759403792794 * 2 powi (- 53) \<le> ?x" using y by simp
  have hi: "?x \<le> (of_int 8917127262193582 + 1 / 2) * 2 powi (- 53)"
    using y by (simp add: p)
  have a1: "2 powi (- 53 + 52) \<le> \<bar>?x\<bar>" using y by (simp add: p)
  have a2: "\<bar>?x\<bar> < 2 powi (- 53 + 53)" using y by (simp add: p)
  have "of_int 7205759403792794 * 2 powi (- 53) \<le> fl ?x"
    using lo a2 by (rule fl_ge) simp
  moreover have "fl ?x \<le> of_int 8917127262193582 * 2 powi (- 53)"
    using hi _ a1 a2 by (rule fl_le_tie) simp_all
  ultimately have "8 / 10 \<le> fl ?x \<and> fl ?x \<le> 99 / 100" by (simp add: p)
  then show ?thesis by (simp only: dbl_add_def dbl_mul_def dbl_values)
qed

lemma support_time_range:
  assumes "0 \<le> r" and "r < 1"
  shows "1 / 2 \<le> dbl_add (dbl (5 / 10)) (dbl_mul r (dbl (15 / 10))) \<and>
         dbl_add (dbl (5 / 10)) (dbl_mul r (dbl (15 / 10))) \<le> 2"
proof -
  let ?y = "fl (r * (of_int 6755399441055744 * 2 powi (- 52)))"
  let ?x = "of_int 4503599627370496 * 2 powi (- 53) + ?y"
  have y: "0 \<le> ?y \<and> ?y \<le> of_int 6755399441055744 * 2 powi (- 52)"
    using assms by (intro fl_mul_unit) simp_all
  have p: "(2::rat) powi (- 53) = 1 / 2 ^ 53" "(2::rat) powi (- 52) = 1 / 2 ^ 52"
    "(2::rat) powi (- 1) = 1 / 2" "(2::rat) powi (- 1 + 53) = 2 ^ 52"
    using pow2_neg [of 53] pow2_neg [of 52] pow2_neg [of 1] by simp_all
  have lo: "of_int 1 * 2 powi (- 1) \<le> ?x" using y by (simp add: p)
  have hi: "?x \<le> of_int 4 * 2 powi (- 1)" using y by (simp add: p)
  have a: "\<bar>?x\<bar> < 2 powi (- 1 + 53)" using y by (simp add: p)
  have "of_int 1 * 2 powi (- 1) \<le> fl ?x" using lo a by (rule fl_ge) simp
  moreover have "fl ?x \<le> of_int 4 * 2 powi (- 1)" using hi a by (rule fl_le) simp
  ultimately have "1 / 2 \<le> fl ?x \<and> fl ?x \<le> 2" by (simp add: p)
  then show ?thesis by (simp only: dbl_add_def dbl_mul_def dbl_values)
qed

lemma feedback_time_range:
  assumes "0 \<le> r" and "r < 1"
  shows "1 / 16 \<le> dbl_add (dbl (1 / 10)) (dbl_mul r (dbl (4 / 10))) \<and>
         dbl_add (dbl (1 / 10)) (dbl_mul r (dbl (4 / 10))) \<le> 17 / 32"
proof -
  let ?y = "fl (r * (of_int 7205759403792794 * 2 powi (- 54)))"
  let ?x = "of_int 7205759403792794 * 2 powi (- 56) + ?y"
  have y: "0 \<le> ?y \<and> ?y \<le> of_int 7205759403792794 * 2 powi (- 54)"
    using assms by (intro fl_mul_unit) simp_all
  have p: "(2::rat) powi (- 54) = 1 / 2 ^ 54" "(2::rat) powi (- 56) = 1 / 2 ^ 56"
    "(2::rat) powi (- 5) = 1 / 32" "(2::rat) powi (- 5 + 53) = 2 ^ 48"
    using pow2_neg [of 54] pow2_neg [of 56] pow2_neg [of 5] by simp_all
  have lo: "of_int 2 * 2 powi (- 5) \<le> ?x" using y by (simp add: p)
  have hi: "?x \<le> of_int 17 * 2 powi (- 5)" using y by (simp add: p)
  have a: "\<bar>?x\<bar> < 2 powi (- 5 + 53)" using y by (simp add: p)
  have "of_int 2 * 2 powi (- 5) \<le> fl ?x" using lo a by (rule fl_ge) simp
  moreover have "fl ?x \<le> of_int 17 * 2 powi (- 5)" using hi a by (rule fl_le) simp
  ultimately have "1 / 16 \<le> fl ?x \<and> fl ?x \<le> 17 / 32" by (simp add: p)
  then show ?thesis by (simp only: dbl_add_def dbl_mul_def dbl_values)
qed

lemma double_below_one:
  assumes "is_double r" and "0 \<le> r" and "r < 1"
  shows "r \<le> 1 - 1 / 2 ^ 53"
proof (cases "r < 1 / 2")
  case True
  then show ?thesis by simp
next
  case False
  have p: "(2::rat) powi (- 53) = 1 / 2 ^ 53" "(2::rat) powi (- 53 + 52) = 1 / 2"
    "(2::rat) powi (- 53 + 53) = 1"
    using pow2_neg [of 53] pow2_neg [of 1] by simp_all
  have q: "quantum r = 2 powi (- 53)"
    by (rule quantum_eq) (use False assms in \<open>simp_all add: p\<close>)
  define n where "n = round_half_even (r / quantum r)"
  have r: "r = of_int n * (1 / 2 ^ 53)"
    using assms(1) False by (simp add: is_double_def fl_def n_def q p split: if_splits)
  then have "(of_int n :: rat) < 2 ^ 53" using assms(3) by simp
  then have "(of_int n :: rat) < of_int (2 ^ 53)" by simp
  then have "n < 2 ^ 53" by (simp only: of_int_less_iff)
  then have "n \<le> 2 ^ 53 - 1" by simp
  then have "(of_int n :: rat) \<le> of_int (2 ^ 53 - 1)" by (simp only: of_int_le_iff)
  then show ?thesis by (subst r) simp
qed

lemma topic_index_in_range:
  assumes "is_double r" and "0 \<le> r" and "r < 1"
  shows "0 \<le> dbl_mul r 6 \<and> dbl_mul r 6 < 6"
proof -
  have r1: "r \<le> 1 - 1 / 2 ^ 53" using assms by (rule double_below_one)
  have x0: "0 \<le> r * 6" using assms(2) by simp
  have x6: "r * 6 \<le> 6 - 6 / 2 ^ 53" using r1 by simp
  have ge: "0 \<le> fl (r * 6)"
  proof -
    have "of_int 0 * 2 powi 0 \<le> fl (r * 6)"
      by (rule fl_ge) (use x0 x6 in simp_all)
    then show ?thesis by simp
  qed
  have lt: "fl (r * 6) < 6"
  proof (cases "r * 6 < 4")
    case True
    have "fl (r * 6) \<le> of_int 4 * 2 powi 0"
      by (rule fl_le) (use x0 True in simp_all)
    then show ?thesis by simp
  next
    case False
    have p: "(2::rat) powi (- 50) = 1 / 2 ^ 50" "(2::rat) powi (- 50 + 52) = 4"
      "(2::rat) powi (- 50 + 53) = 8"
      using pow2_neg [of 50] by simp_all
    have "fl (r * 6) \<le> of_int (6 * 2 ^ 50 - 1) * 2 powi (- 50)"
      by (rule fl_le_half) (use x0 x6 False in \<open>simp_all add: p\<close>)
    then show ?thesis by (simp add: p)
  qed
  show ?thesis using ge lt by (simp add: dbl_mul_def)
qed

lemma pick_topic_index:
  assumes "is_double r" and "0 \<le> r" and "r < 1"
  shows "nat \<lfloor>dbl_mul r (of_nat (length topics))\<rfloor> < length topics"
proof -
  have len: "length topics = 6" by (simp add: topics_def)
  have "0 \<le> dbl_mul r 6 \<and> dbl_mul r 6 < 6" using assms by (rule topic_index_in_range)
  then have "\<lfloor>dbl_mul r 6\<rfloor> < 6" by (simp add: floor_less_iff)
  then have "nat \<lfloor>dbl_mul r 6\<rfloor> < 6" by linarith
  then show ?thesis by (simp only: len) simp
qed

section \<open>Processing-time labels\<close>

lemma support_label_of_tenths:
  "5 \<le> n \<Longrightarrow> n \<le> 20 \<Longrightarrow> decimal (n div 10) @ ''.'' @ decimal (n mod 10) @ ''s'' \<in> set support_time_labels"
proof -
  assume "5 \<le> n" "n \<le> 20"
  then have "n \<in> {5..<21}" by simp
  then have "n \<in> set [5..<21]" by (simp only: set_upt)
  moreover have "\<forall>k \<in> set [5..<21]. decimal (k div 10) @ ''.'' @ decimal (k mod 10) @ ''s'' \<in> set support_time_labels"
    by code_simp
  ultimately show ?thesis by blast
qed

lemma feedback_label_of_tenths:
  "1 \<le> n \<Longrightarrow> n \<le> 5 \<Longrightarrow> decimal (n div 10) @ ''.'' @ decimal (n mod 10) @ ''s'' \<in> set feedback_time_labels"
proof -
  assume "1 \<le> n" "n \<le> 5"
  then have "n \<in> set [1..<6]" by simp
  moreover have "\<forall>k \<in> set [1..<6]. decimal (k div 10) @ ''.'' @ decimal (k mod 10) @ ''s'' \<in> set feedback_time_labels"
    by code_simp
  ultimately show ?thesis by blast
qed

lemma toFixed1_tenths:
  assumes "0 \<le> x"
  shows "toFixed1 x = decimal (nat \<lfloor>x * 10 + 1 / 2\<rfloor> div 10) @ ''.'' @ decimal (nat \<lfloor>x * 10 + 1 / 2\<rfloor> mod 10)"
  using assms by (simp add: toFixed1_def toFixed1_abs_def Let_def)

lemma support_time_label:
  assumes "1 / 2 \<le> x" and "x \<le> 2"
  shows "toFixed1 x @ ''s'' \<in> set support_time_labels"
proof -
  let ?n = "nat \<lfloor>x * 10 + 1 / 2\<rfloor>"
  have "5 \<le> \<lfloor>x * 10 + 1 / 2\<rfloor>" using assms by (simp add: le_floor_iff)
  moreover have "\<lfloor>x * 10 + 1 / 2\<rfloor> < 21" using assms by (simp add: floor_less_iff)
  ultimately have "5 \<le> ?n" "?n \<le> 20" by linarith+
  then have "decimal (?n div 10) @ ''.'' @ decimal (?n mod 10) @ ''s'' \<in> set support_time_labels"
    by (rule support_label_of_tenths)
  moreover have "0 \<le> x" using assms by simp
  ultimately show ?thesis by (simp add: toFixed1_tenths)
qed

lemma feedback_time_label:
  assumes "1 / 16 \<le> x" and "x \<le> 17 / 32"
  shows "toFixed1 x @ ''s'' \<in> set feedback_time_labels"
proof -
  let ?n = "nat \<lfloor>x * 10 + 1 / 2\<rfloor>"
  have "1 \<le> \<lfloor>x * 10 + 1 / 2\<rfloor>" using assms by (simp add: le_floor_iff)
  moreover have "\<lfloor>x * 10 + 1 / 2\<rfloor> < 6" using assms by (simp add: floor_less_iff)
  ultimately have "1 \<le> ?n" "?n \<le> 5" by linarith+
  then have "decimal (?n div 10) @ ''.'' @ decimal (?n mod 10) @ ''s'' \<in> set feedback_time_labels"
    by (rule feedback_label_of_tenths)
  moreover have "0 \<le> x" using assms by simp
  ultimately show ?thesis by (simp add: toFixed1_tenths)
qed

lemma support_time_in_range:
  assumes "0 \<le> r" "r < 1"
  shows "toFixed1 (dbl_add (dbl (5 / 10)) (dbl_mul r (dbl (15 / 10)))) @ ''s''
           \<in> set support_time_labels"
  using support_time_range [OF assms] by (intro support_time_label) simp_all

lemma feedback_time_in_range:
  assumes "0 \<le> r" "r < 1"
  shows "toFixed1 (dbl_add (dbl (1 / 10)) (dbl_mul r (dbl (4 / 10)))) @ ''s''
           \<in> set feedback_time_labels"
  using feedback_time_range [OF assms] by (intro feedback_time_label) simp_all

section \<open>Facts about the remote call\<close>

lemma mock_query_type:
  "get_v (get (createMockSupportResponse rnd q) ''metadata'') ''query_type'' = Some (JStr (scan_label q))"
proof -
  have "list_all is_lower_ascii ''order''" "list_all is_lower_ascii ''ship''"
    "list_all is_lower_ascii ''return''" by code_simp+
  then have "includes_str (toLowerCase q) ''order'' = contains_ci q ''order''"
    "includes_str (toLowerCase q) ''ship'' = contains_ci q ''ship''"
    "includes_str (toLowerCase q) ''return'' = contains_ci q ''return''"
    by (simp_all only: includes_lower)
  then show ?thesis
    by (simp add: createMockSupportResponse_def scan_label_def Let_def)
qed

lemma callAgentAPI_support_fails:
  "call_fails outcome \<Longrightarrow>
   callAgentAPI parseLLMJson rnd now AGENT_support q outcome = Inr (createMockSupportResponse rnd q)"
  by (cases outcome rule: call_fails.cases)
     (simp_all add: callAgentAPI_def callAgentAPI_try_def)

lemma callAgentAPI_feedback_fails:
  "call_fails outcome \<Longrightarrow>
   callAgentAPI parseLLMJson rnd now AGENT_feedback q outcome = Inr (createMockFeedbackResponse rnd now)"
  by (cases outcome rule: call_fails.cases)
     (simp_all add: callAgentAPI_def callAgentAPI_try_def AGENT_support_def AGENT_feedback_def)

lemma templates_nonempty:
  "msg_order \<noteq> []" "msg_shipping \<noteq> []" "msg_return \<noteq> []" "msg_general \<noteq> []"
  by (simp_all add: msg_order_def msg_shipping_def msg_return_def msg_general_def)

lemma scan_label_nonempty: "scan_label q \<noteq> []"
  by (simp add: scan_label_def)

lemma mock_response_block:
  "get (createMockSupportResponse rnd q) ''response'' =
     Some (JObj
       [(''message'', JStr
           (if contains_ci q ''order'' then msg_order
            else if contains_ci q ''ship'' then msg_shipping
            else if contains_ci q ''return'' then msg_return
            else msg_general)),
        (''suggested_topics'',
           JArr [JStr (pick_topic (rnd 0)), JStr (pick_topic (rnd 1)), JStr (pick_topic (rnd 2))]),
        (''confidence_score'',
           JNum (dbl_add (dbl (8 / 10)) (dbl_mul (rnd 3) (dbl (19 / 100)))))])"
proof -
  have "list_all is_lower_ascii ''order''" "list_all is_lower_ascii ''ship''"
    "list_all is_lower_ascii ''return''" by code_simp+
  then have "includes_str (toLowerCase q) ''order'' = contains_ci q ''order''"
    "includes_str (toLowerCase q) ''ship'' = contains_ci q ''ship''"
    "includes_str (toLowerCase q) ''return'' = contains_ci q ''return''"
    by (simp_all only: includes_lower)
  then show ?thesis
    by (simp add: createMockSupportResponse_def Let_def)
qed

lemma mock_metadata_block:
  "get (createMockSupportResponse rnd q) ''metadata'' =
     Some (JObj
       [(''query_type'', JStr (scan_label q)),
        (''processing_time'', JStr
           (toFixed1 (dbl_add (dbl (5 / 10)) (dbl_mul (rnd 4) (dbl (15 / 10)))) @ ''s''))])"
  using mock_query_type [of rnd q]
  by (simp add: createMockSupportResponse_def Let_def)

lemma aiMessage_of_mock:
  assumes "0 \<le> rnd 3" and "rnd 3 < 1"
  shows "aiMessage_of clk (createMockSupportResponse rnd q) =
     \<lparr>id_msg = ''msg-'' @ decimal (clk 0 + 1),
      text_msg = JStr
        (if contains_ci q ''order'' then msg_order
         else if contains_ci q ''ship'' then msg_shipping
         else if contains_ci q ''return'' then msg_return
         else msg_general),
      isUser = False,
      timestamp = clk 1,
      suggestedTopics =
        Some (JArr [JStr (pick_topic (rnd 0)), JStr (pick_topic (rnd 1)), JStr (pick_topic (rnd 2))]),
      confidenceScore =
        Some (JNum (dbl_add (dbl (8 / 10)) (dbl_mul (rnd 3) (dbl (19 / 100))))),
      queryType = Some (JStr (scan_label q)),
      processingTime =
        Some (JStr (toFixed1 (dbl_add (dbl (5 / 10)) (dbl_mul (rnd 4) (dbl (15 / 10)))) @ ''s'')),
      responseId = Some (JStr (''resp-'' @ decimal (clk 2))),
      feedbackSubmitted = None\<rparr>"
proof -
  have c: "dbl_add (dbl (8 / 10)) (dbl_mul (rnd 3) (dbl (19 / 100))) \<noteq> 0"
    using confidence_range [OF assms] by auto
  show ?thesis
    using c
    by (simp add: aiMessage_of_def mock_response_block mock_metadata_block or_else_def or_js_def
          templates_nonempty scan_label_nonempty)
qed

lemma mock_not_null: "createMockSupportResponse rnd q \<noteq> JNull"
  by (simp add: createMockSupportResponse_def Let_def)

section \<open>The sample sessions, written out\<close>

lemma trim_samples:
  "trim ''Where is my order?'' = ''Where is my order?''"
  "trim ''Tell me about Orders'' = ''Tell me about Orders''"
  "trim ''Tell me about Shipping'' = ''Tell me about Shipping''"
  "trim ''Hello'' = ''Hello''"
  "trim ''And returns?'' = ''And returns?''"
  by code_simp+

lemma decimal_samples:
  "decimal 1000 = ''1000''" "decimal 1001 = ''1001''" "decimal 2000 = ''2000''"
  "decimal 2001 = ''2001''" "decimal 5000 = ''5000''" "decimal 6000 = ''6000''"
  "decimal 6001 = ''6001''"
  by (simp_all add: decimal.simps digit_char_def)

lemma rnd_half_samples:
  "pick_topic (rnd_half i) = ''Products''"
  "dbl_add (dbl (8 / 10)) (dbl_mul (rnd_half 3) (dbl (19 / 100))) = dbl (895 / 1000)"
  "toFixed1 (dbl_add (dbl (5 / 10)) (dbl_mul (rnd_half 4) (dbl (15 / 10)))) = ''1.3''"
  "toFixed1 (dbl_add (dbl (1 / 10)) (dbl_mul (rnd_half 0) (dbl (4 / 10)))) = ''0.3''"
  by code_simp+

lemma rnd_half_unit: "0 \<le> rnd_half i" "rnd_half i < 1"
  by (simp_all add: rnd_half_def)

lemma rounding_samples:
  "toFixed1 (dbl_add (dbl (1 / 10)) (dbl_mul (rnd_five_eighths 0) (dbl (4 / 10)))) = ''0.3''"
  "pick_topic (rnd_mixed 0) = ''Account''"
  "pick_topic (rnd_mixed 1) = ''Account''"
  "pick_topic (rnd_mixed 2) = ''Account''"
  "dbl_add (dbl (8 / 10)) (dbl_mul (rnd_mixed 3) (dbl (19 / 100))) =
     7419680386092893 / 9007199254740992"
  "toFixed1 (dbl_add (dbl (5 / 10)) (dbl_mul (rnd_mixed 4) (dbl (15 / 10)))) = ''1.8''"
  by code_simp+

lemma contains_samples:
  "contains_ci ''Where is my order?'' ''order''"
  "contains_ci ''Tell me about Orders'' ''order''"
  "\<not> contains_ci ''Tell me about Shipping'' ''order''"
  "contains_ci ''Tell me about Shipping'' ''ship''"
  by code_simp+

lemma aiMessage_samples:
  "aiMessage_of (const_clock 2000) (createMockSupportResponse rnd_half ''Where is my order?'') =
     \<lparr>id_msg = ''msg-2001'', text_msg = JStr msg_order, isUser = False, timestamp = 2000,
      suggestedTopics = Some (JArr [JStr ''Products'', JStr ''Products'', JStr ''Products'']),
      confidenceScore = Some (JNum (dbl (895 / 1000))), queryType = Some (JStr ''order''),
      processingTime = Some (JStr ''1.3s''), responseId = Some (JStr ''resp-2000''),
      feedbackSubmitted = None\<rparr>"
  "aiMessage_of (const_clock 2000) (createMockSupportResponse rnd_half ''Tell me about Orders'') =
     \<lparr>id_msg = ''msg-2001'', text_msg = JStr msg_order, isUser = False, timestamp = 2000,
      suggestedTopics = Some (JArr [JStr ''Products'', JStr ''Products'', JStr ''Products'']),
      confidenceScore = Some (JNum (dbl (895 / 1000))), queryType = Some (JStr ''order''),
      processingTime = Some (JStr ''1.3s''), responseId = Some (JStr ''resp-2000''),
      feedbackSubmitted = None\<rparr>"
  "aiMessage_of (const_clock 2000) (createMockSupportResponse rnd_half ''Tell me about Shipping'') =
     \<lparr>id_msg = ''msg-2001'', text_msg = JStr msg_shipping, isUser = False, timestamp = 2000,
      suggestedTopics = Some (JArr [JStr ''Products'', JStr ''Products'', JStr ''Products'']),
      confidenceScore = Some (JNum (dbl (895 / 1000))), queryType = Some (JStr ''shipping''),
      processingTime = Some (JStr ''1.3s''), responseId = Some (JStr ''resp-2000''),
      feedbackSubmitted = None\<rparr>"
  by (simp_all only: aiMessage_of_mock [OF rnd_half_unit] scan_label_def contains_samples
        if_True if_False rnd_half_samples const_clock_def)
     (simp_all add: decimal_samples)

lemma reply_canonical_not_null: "reply_canonical \<noteq> JNull"
  by (simp add: reply_canonical_def)

lemma call_body_with_id:
  "callAgentAPI parse_same rnd 0 AGENT_support q (HttpResponse True (JsonBody body_with_id)) =
     Inr reply_canonical"
  by (simp add: callAgentAPI_def callAgentAPI_try_def extract_parsedData_def body_with_id_def
        validateSupportAgentResponse_def reply_canonical_def)

lemma aiMessage_with_id:
  "aiMessage_of (const_clock t) reply_canonical =
     \<lparr>id_msg = ''msg-'' @ decimal (t + 1), text_msg = JStr ''Hi'', isUser = False, timestamp = t,
      suggestedTopics = Some (JArr []), confidenceScore = Some (JNum (dbl (8 / 10))),
      queryType = Some (JStr ''general''), processingTime = Some (JStr ''0.5s''),
      responseId = Some (JStr ''r-1''), feedbackSubmitted = None\<rparr>"
  by (simp add: aiMessage_of_def or_else_def or_js_def const_clock_def reply_canonical_def)

lemma state_one_reply_eq:
  "state_one_reply =
     \<lparr>messages =
        [\<lparr>id_msg = ''msg-1000'', text_msg = JStr ''Where is my order?'', isUser = True,
          timestamp = 1000, suggestedTopics = None, confidenceScore = None, queryType = None,
          processingTime = None, responseId = None, feedbackSubmitted = None\<rparr>,
         \<lparr>id_msg = ''msg-2001'', text_msg = JStr msg_order, isUser = False, timestamp = 2000,
          suggestedTopics = Some (JArr [JStr ''Products'', JStr ''Products'', JStr ''Products'']),
          confidenceScore = Some (JNum (dbl (895 / 1000))), queryType = Some (JStr ''order''),
          processingTime = Some (JStr ''1.3s''), responseId = Some (JStr ''resp-2000''),
          feedbackSubmitted = None\<rparr>],
      inputText = [], isTyping = False, sessionId = ''s1''\<rparr>"
  by (simp add: state_one_reply_def handleSendMessage_def handleSendMessage_begin_def
        handleSendMessage_resume_def ui_dispatch_def handleTopicClick_def initial_state_def
        const_clock_def trim_samples decimal_samples callAgentAPI_support_fails mock_not_null aiMessage_samples)

lemma state_pending_eq:
  "state_pending =
     \<lparr>messages =
        [\<lparr>id_msg = ''msg-1000'', text_msg = JStr ''Tell me about Orders'', isUser = True,
          timestamp = 1000, suggestedTopics = None, confidenceScore = None, queryType = None,
          processingTime = None, responseId = None, feedbackSubmitted = None\<rparr>],
      inputText = [], isTyping = True, sessionId = ''s1''\<rparr>"
  by (simp add: state_pending_def handleSendMessage_def handleSendMessage_begin_def
        handleSendMessage_resume_def ui_dispatch_def handleTopicClick_def initial_state_def
        const_clock_def trim_samples decimal_samples callAgentAPI_support_fails mock_not_null )

lemma state_pending_two_eq:
  "state_pending_two =
     \<lparr>messages =
        [\<lparr>id_msg = ''msg-1000'', text_msg = JStr ''Tell me about Orders'', isUser = True,
          timestamp = 1000, suggestedTopics = None, confidenceScore = None, queryType = None,
          processingTime = None, responseId = None, feedbackSubmitted = None\<rparr>,
         \<lparr>id_msg = ''msg-1001'', text_msg = JStr ''Tell me about Shipping'', isUser = True,
          timestamp = 1001, suggestedTopics = None, confidenceScore = None, queryType = None,
          processingTime = None, responseId = None, feedbackSubmitted = None\<rparr>],
      inputText = [], isTyping = True, sessionId = ''s1''\<rparr>"
  by (simp add: state_pending_two_def state_pending_eq handleSendMessage_def handleSendMessage_begin_def
        handleSendMessage_resume_def ui_dispatch_def handleTopicClick_def initial_state_def
        const_clock_def trim_samples decimal_samples callAgentAPI_support_fails mock_not_null )

lemma state_first_reply_eq:
  "state_first_reply =
     \<lparr>messages =
        [\<lparr>id_msg = ''msg-1000'', text_msg = JStr ''Tell me about Orders'', isUser = True,
          timestamp = 1000, suggestedTopics = None, confidenceScore = None, queryType = None,
          processingTime = None, responseId = None, feedbackSubmitted = None\<rparr>,
         \<lparr>id_msg = ''msg-1001'', text_msg = JStr ''Tell me about Shipping'', isUser = True,
          timestamp = 1001, suggestedTopics = None, confidenceScore = None, queryType = None,
          processingTime = None, responseId = None, feedbackSubmitted = None\<rparr>,
         \<lparr>id_msg = ''msg-2001'', text_msg = JStr msg_order, isUser = False, timestamp = 2000,
          suggestedTopics = Some (JArr [JStr ''Products'', JStr ''Products'', JStr ''Products'']),
          confidenceScore = Some (JNum (dbl (895 / 1000))), queryType = Some (JStr ''order''),
          processingTime = Some (JStr ''1.3s''), responseId = Some (JStr ''resp-2000''),
          feedbackSubmitted = None\<rparr>],
      inputText = [], isTyping = False, sessionId = ''s1''\<rparr>"
  by (simp add: state_first_reply_def state_pending_two_eq handleSendMessage_def handleSendMessage_begin_def
        handleSendMessage_resume_def ui_dispatch_def handleTopicClick_def initial_state_def
        const_clock_def trim_samples decimal_samples callAgentAPI_support_fails mock_not_null aiMessage_samples)

lemma state_two_replies_eq:
  "state_two_replies =
     \<lparr>messages =
        [\<lparr>id_msg = ''msg-1000'', text_msg = JStr ''Tell me about Orders'', isUser = True,
          timestamp = 1000, suggestedTopics = None, confidenceScore = None, queryType = None,
          processingTime = None, responseId = None, feedbackSubmitted = None\<rparr>,
         \<lparr>id_msg = ''msg-1001'', text_msg = JStr ''Tell me about Shipping'', isUser = True,
          timestamp = 1001, suggestedTopics = None, confidenceScore = None, queryType = None,
          processingTime = None, responseId = None, feedbackSubmitted = None\<rparr>,
         \<lparr>id_msg = ''msg-2001'', text_msg = JStr msg_order, isUser = False, timestamp = 2000,
          suggestedTopics = Some (JArr [JStr ''Products'', JStr ''Products'', JStr ''Products'']),
          confidenceScore = Some (JNum (dbl (895 / 1000))), queryType = Some (JStr ''order''),
          processingTime = Some (JStr ''1.3s''), responseId = Some (JStr ''resp-2000''),
          feedbackSubmitted = None\<rparr>,
         \<lparr>id_msg = ''msg-2001'', text_msg = JStr msg_shipping, isUser = False, timestamp = 2000,
          suggestedTopics = Some (JArr [JStr ''Products'', JStr ''Products'', JStr ''Products'']),
          confidenceScore = Some (JNum (dbl (895 / 1000))), queryType = Some (JStr ''shipping''),
          processingTime = Some (JStr ''1.3s''), responseId = Some (JStr ''resp-2000''),
          feedbackSubmitted = None\<rparr>],
      inputText = [], isTyping = False, sessionId = ''s1''\<rparr>"
  by (simp add: state_two_replies_def state_first_reply_eq handleSendMessage_def handleSendMessage_begin_def
        handleSendMessage_resume_def ui_dispatch_def handleTopicClick_def initial_state_def
        const_clock_def trim_samples decimal_samples callAgentAPI_support_fails mock_not_null aiMessage_samples)

lemma state_first_id_eq:
  "state_first_id =
     \<lparr>messages =
        [\<lparr>id_msg = ''msg-1000'', text_msg = JStr ''Hello'', isUser = True, timestamp = 1000,
          suggestedTopics = None, confidenceScore = None, queryType = None,
          processingTime = None, responseId = None, feedbackSubmitted = None\<rparr>,
         \<lparr>id_msg = ''msg-2001'', text_msg = JStr ''Hi'', isUser = False, timestamp = 2000,
          suggestedTopics = Some (JArr []), confidenceScore = Some (JNum (dbl (8 / 10))),
          queryType = Some (JStr ''general''), processingTime = Some (JStr ''0.5s''),
          responseId = Some (JStr ''r-1''), feedbackSubmitted = None\<rparr>],
      inputText = [], isTyping = False, sessionId = ''s1''\<rparr>"
  by (simp add: state_first_id_def handleSendMessage_def handleSendMessage_begin_def
        handleSendMessage_resume_def ui_dispatch_def handleTopicClick_def initial_state_def
        const_clock_def trim_samples decimal_samples callAgentAPI_support_fails mock_not_null call_body_with_id aiMessage_with_id
        reply_canonical_not_null)

lemma state_same_ids_eq:
  "state_same_ids =
     \<lparr>messages =
        [\<lparr>id_msg = ''msg-1000'', text_msg = JStr ''Hello'', isUser = True, timestamp = 1000,
          suggestedTopics = None, confidenceScore = None, queryType = None,
          processingTime = None, responseId = None, feedbackSubmitted = None\<rparr>,
         \<lparr>id_msg = ''msg-2001'', text_msg = JStr ''Hi'', isUser = False, timestamp = 2000,
          suggestedTopics = Some (JArr []), confidenceScore = Some (JNum (dbl (8 / 10))),
          queryType = Some (JStr ''general''), processingTime = Some (JStr ''0.5s''),
          responseId = Some (JStr ''r-1''), feedbackSubmitted = None\<rparr>,
         \<lparr>id_msg = ''msg-5000'', text_msg = JStr ''And returns?'', isUser = True,
          timestamp = 5000, suggestedTopics = None, confidenceScore = None, queryType = None,
          processingTime = None, responseId = None, feedbackSubmitted = None\<rparr>,
         \<lparr>id_msg = ''msg-6001'', text_msg = JStr ''Hi'', isUser = False, timestamp = 6000,
          suggestedTopics = Some (JArr []), confidenceScore = Some (JNum (dbl (8 / 10))),
          queryType = Some (JStr ''general''), processingTime = Some (JStr ''0.5s''),
          responseId = Some (JStr ''r-1''), feedbackSubmitted = None\<rparr>],
      inputText = [], isTyping = False, sessionId = ''s1''\<rparr>"
  by (simp add: state_same_ids_def state_first_id_eq handleSendMessage_def handleSendMessage_begin_def
        handleSendMessage_resume_def ui_dispatch_def handleTopicClick_def initial_state_def
        const_clock_def trim_samples decimal_samples callAgentAPI_support_fails mock_not_null call_body_with_id aiMessage_with_id
        reply_canonical_not_null)

lemma state_id_clash_eq:
  "state_id_clash =
     \<lparr>messages =
        [\<lparr>id_msg = ''msg-1000'', text_msg = JStr ''Where is my order?'', isUser = True,
          timestamp = 1000, suggestedTopics = None, confidenceScore = None, queryType = None,
          processingTime = None, responseId = None, feedbackSubmitted = None\<rparr>,
         \<lparr>id_msg = ''msg-2001'', text_msg = JStr msg_order, isUser = False, timestamp = 2000,
          suggestedTopics = Some (JArr [JStr ''Products'', JStr ''Products'', JStr ''Products'']),
          confidenceScore = Some (JNum (dbl (895 / 1000))), queryType = Some (JStr ''order''),
          processingTime = Some (JStr ''1.3s''), responseId = Some (JStr ''resp-2000''),
          feedbackSubmitted = None\<rparr>,
         \<lparr>id_msg = ''msg-2001'', text_msg = JStr ''Thanks'', isUser = True, timestamp = 2001,
          suggestedTopics = None, confidenceScore = None, queryType = None,
          processingTime = None, responseId = None, feedbackSubmitted = None\<rparr>],
      inputText = [], isTyping = True, sessionId = ''s1''\<rparr>"
proof -
  have t: "trim ''Thanks'' = ''Thanks''" by code_simp
  show ?thesis
    by (simp add: state_id_clash_def state_one_reply_eq handleSendMessage_begin_def
          const_clock_def decimal_samples t)
qed

section \<open>Helper facts about the handlers\<close>

lemma truthy_field_object:
  "truthy_v (get data k) \<Longrightarrow> truthy data"
  by (cases data) simp_all

lemma validate_canonical:
  assumes "truthy_v (get data ''response'')" and "truthy_v (get data ''metadata'')"
  shows "validateSupportAgentResponse rnd (Some data) = data"
  using assms truthy_field_object [OF assms(1)]
  by (simp add: validateSupportAgentResponse_def)

lemma callAgentAPI_feedback_resolves:
  "\<exists>v. callAgentAPI parseLLMJson rnd now AGENT_feedback txt outcome = Inr v"
  by (simp add: callAgentAPI_def callAgentAPI_try_def AGENT_support_def AGENT_feedback_def
        split: fetch_outcome.split http_body.split)

lemma trim_blank: "\<forall>c\<in>set text. is_ws c \<Longrightarrow> trim text = []"
  by (auto simp: trim_def dropWhile_eq_Nil_conv dest: set_dropWhileD)

lemma find_id_None: "(find (\<lambda>m. id_msg m = mid) ms = None) = (\<forall>m\<in>set ms. id_msg m \<noteq> mid)"
  by (auto simp: find_None_iff)

lemma aiMessage_queryType_mock:
  "queryType (aiMessage_of clk (createMockSupportResponse rnd q)) = Some (JStr (scan_label q))"
  by (simp add: aiMessage_of_def Let_def mock_metadata_block or_else_def or_js_def
        scan_label_nonempty)

section \<open>Response identifiers along a session\<close>

lemma response_ids_append: "response_ids (xs @ ys) = response_ids xs @ response_ids ys"
  by (simp add: response_ids_def List.map_filter_def)

lemma response_ids_mark:
  "response_ids (map (\<lambda>msg. if id_msg msg = mid then msg\<lparr>feedbackSubmitted := Some True\<rparr>
                               else msg) ms) = response_ids ms"
  by (induction ms) (simp_all add: response_ids_def List.map_filter_def)

lemma responseId_supplied:
  "supplied_id r = Some v \<Longrightarrow> responseId (aiMessage_of clk r) = Some v"
  by (auto simp: supplied_id_def aiMessage_of_def Let_def or_else_def
      split: if_splits option.splits)

lemma responseId_local:
  "supplied_id r = None \<Longrightarrow> responseId (aiMessage_of clk r) = Some (clock_id (clk 2))"
  by (auto simp: supplied_id_def aiMessage_of_def Let_def or_else_def clock_id_def
      split: if_splits option.splits)

lemma isUser_aiMessage: "\<not> isUser (aiMessage_of clk r)"
  by (simp add: aiMessage_of_def Let_def)

lemma clock_id_inj: "clock_id s = clock_id t \<Longrightarrow> s = t"
  by (simp add: clock_id_def decimal_inj)

lemma step_response_ids:
  assumes "local_reply e"
  shows "response_ids (messages (step e st)) =
           response_ids (messages st) @ map clock_id (id_clock e)"
proof (cases e)
  case (Send clk body)
  then show ?thesis
    by (simp add: handleSendMessage_begin_def Let_def response_ids_append)
       (simp add: response_ids_def List.map_filter_def)
next
  case (Reply clk reply)
  show ?thesis
  proof (cases reply)
    case (Inl error)
    then show ?thesis using Reply
      by (simp add: handleSendMessage_resume_def response_ids_append)
         (simp add: response_ids_def List.map_filter_def errorMessage_of_def)
  next
    case (Inr response)
    show ?thesis
    proof (cases "response = JNull")
      case True
      then show ?thesis using Reply Inr
        by (simp add: handleSendMessage_resume_def response_ids_append)
           (simp add: response_ids_def List.map_filter_def errorMessage_of_def)
    next
      case False
      have "supplied_id response = None" using assms Reply Inr by simp
      then have "response_ids [aiMessage_of clk response] = [clock_id (clk 2)]"
        by (simp add: response_ids_def List.map_filter_def isUser_aiMessage responseId_local)
      then show ?thesis using Reply Inr False
        by (simp add: handleSendMessage_resume_def response_ids_append)
    qed
  qed
next
  case (FeedbackDone messageId)
  then show ?thesis by (simp add: handleFeedback_resume_def response_ids_mark)
qed

lemma run_response_ids:
  "list_all local_reply evs \<Longrightarrow>
   response_ids (messages (run evs st)) =
     response_ids (messages st) @ map clock_id (concat (map id_clock evs))"
proof (induction evs arbitrary: st)
  case Nil
  then show ?case by (simp add: run_def)
next
  case (Cons e evs)
  have "run (e # evs) st = run evs (step e st)" by (simp add: run_def)
  then show ?case using Cons step_response_ids [of e st] by simp
qed

lemma run_response_ids_distinct:
  assumes "list_all local_reply evs" and "distinct (concat (map id_clock evs))"
  shows "distinct (response_ids (messages (run evs (initial_state sid))))"
proof -
  have "response_ids (messages (initial_state sid)) = []"
    by (simp add: initial_state_def response_ids_def List.map_filter_def)
  then have "response_ids (messages (run evs (initial_state sid))) =
      map clock_id (concat (map id_clock evs))"
    using run_response_ids [OF assms(1), of "initial_state sid"] by simp
  moreover have "inj_on clock_id (set (concat (map id_clock evs)))"
    by (rule inj_onI) (rule clock_id_inj)
  ultimately show ?thesis using assms(2) by (simp add: distinct_map)
qed

lemma responseId_part0:
  "aiMessage_part0 clk v = Inr m \<Longrightarrow> responseId m = Some (clock_id (clk 2))"
  by (auto simp: aiMessage_part0_def clock_id_def split: option.splits if_splits)

lemma resume_part0_null:
  "messages (handleSendMessage_resume_part0 clk (Inr (Some JNull)) st) =
     messages st @ [errorMessage_of clk 1 apology_text_part0]"
  "responseId (errorMessage_of clk 1 apology_text_part0) = None"
  by (simp_all add: handleSendMessage_resume_part0_def aiMessage_part0_def errorMessage_of_def)

lemma aiMessage_part0_null:
  "aiMessage_part0 clk None = Inl TypeError" "aiMessage_part0 clk (Some JNull) = Inl TypeError"
  by (simp_all add: aiMessage_part0_def)

section \<open>The claims\<close>

text \<open>
  C1 (as amended). Where the \<^verbatim>\<open>response\<close> and the \<^verbatim>\<open>metadata\<close> field of a reply are
  both truthy, \<open>validateSupportAgentResponse\<close> returns the reply itself, whatever the random
  source, and \<open>callAgentAPI\<close> resolves to it: nothing is sampled again.
\<close>

theorem canonical_reply_unchanged:
  assumes "truthy_v (get data ''response'')" and "truthy_v (get data ''metadata'')"
  shows "validateSupportAgentResponse rnd (Some data) = data \<and>
         (extract_parsedData parseLLMJson result = Some data \<longrightarrow>
            callAgentAPI parseLLMJson rnd now AGENT_support q (HttpResponse True (JsonBody result))
              = Inr data)"
  using validate_canonical [OF assms] truthy_field_object [OF assms(1)]
  by (simp add: callAgentAPI_def callAgentAPI_try_def)

theorem canonical_reply_unchanged_witness:
  "truthy_v (get reply_canonical ''response'') \<and> truthy_v (get reply_canonical ''metadata'') \<and>
   extract_parsedData parse_same body_with_id = Some reply_canonical \<and>
   validateSupportAgentResponse rnd_half (Some reply_canonical) = reply_canonical \<and>
   callAgentAPI parse_same rnd_half 0 AGENT_support ''Hello''
     (HttpResponse True (JsonBody body_with_id)) = Inr reply_canonical"
proof -
  have a: "truthy_v (get reply_canonical ''response'')"
    and b: "truthy_v (get reply_canonical ''metadata'')"
    by (simp_all add: reply_canonical_def)
  have c: "extract_parsedData parse_same body_with_id = Some reply_canonical"
    by (simp add: extract_parsedData_def body_with_id_def reply_canonical_def)
  show ?thesis
    using a b c
      canonical_reply_unchanged [OF a b, of rnd_half parse_same body_with_id 0 "''Hello''"]
    by simp
qed

text \<open>
  C1 as stated fails: \<open>reply_null_metadata\<close> has a \<^verbatim>\<open>response\<close> and a \<^verbatim>\<open>metadata\<close>
  field, the latter \<^verbatim>\<open>null\<close>; the normalizer returns another value, with another
  message text.
\<close>

theorem canonical_reply_unchanged_counterexample:
  "get reply_null_metadata ''response'' = Some (JObj [(''message'', JStr ''M'')]) \<and>
   get reply_null_metadata ''metadata'' = Some JNull \<and>
   validateSupportAgentResponse rnd_half (Some reply_null_metadata) =
     JObj [(''response'', JObj [(''message'', JStr ''A'')]), (''metadata'', JObj [])] \<and>
   validateSupportAgentResponse rnd_half (Some reply_null_metadata) \<noteq> reply_null_metadata"
  by (simp add: reply_null_metadata_def validateSupportAgentResponse_def or_else_def)

text \<open>
  C2, evaluated on the code: with one exchange pending, the form cannot be submitted, but a
  click on a help topic or on a suggested topic starts a second exchange: a second user
  message is appended and a second request goes out.
\<close>

theorem pending_topic_click_accepted:
  "isTyping state_pending \<and> input_disabled state_pending \<and> send_disabled state_pending \<and>
   ''Shipping'' \<in> set HELP_TOPICS \<and>
   ui_dispatch (const_clock 1001) FormSubmit state_pending = (state_pending, []) \<and>
   ui_dispatch (const_clock 1001) (HelpTopicClick ''Shipping'') state_pending =
     (state_pending_two, [SupportRequest ''s1'' ''Tell me about Shipping'']) \<and>
   length (messages state_pending_two) = 2 \<and>
   snd (ui_dispatch (const_clock 1001) (SuggestedTopicClick ''Shipping'') state_pending) =
     [SupportRequest ''s1'' ''Shipping'']"
proof -
  have t: "trim ''Shipping'' = ''Shipping''" by code_simp
  show ?thesis
    by (simp add: state_pending_two_eq state_pending_eq ui_dispatch_def handleTopicClick_def
          handleSendMessage_begin_def send_disabled_def input_disabled_def HELP_TOPICS_def
          const_clock_def trim_samples decimal_samples t)
qed

text \<open>
  C3. When the call to the support endpoint fails, \<open>callAgentAPI\<close> resolves to the
  synthesized reply, whose query-type label is \<open>scan_label query\<close>: "order" where the
  query contains "order" in any letter case, else "shipping" for "ship", else "return"
  for "return", else "general". The assistant message shows the same label. In
  particular a query \<open>pre @ mid @ post\<close> whose part \<open>mid\<close> spells "order" in any letter
  case is labelled "order".
\<close>

theorem fallback_query_type_by_scan:
  assumes "call_fails outcome"
  shows "\<exists>reply. callAgentAPI parseLLMJson rnd now AGENT_support query outcome = Inr reply \<and>
           get_v (get reply ''metadata'') ''query_type'' = Some (JStr (scan_label query)) \<and>
           queryType (aiMessage_of clk reply) = Some (JStr (scan_label query)) \<and>
           (query = pre @ mid @ post \<and> list_all2 same_letter mid ''order'' \<longrightarrow>
              get_v (get reply ''metadata'') ''query_type'' = Some (JStr ''order''))"
proof -
  have "callAgentAPI parseLLMJson rnd now AGENT_support query outcome =
          Inr (createMockSupportResponse rnd query)"
    using assms by (rule callAgentAPI_support_fails)
  moreover have "get_v (get (createMockSupportResponse rnd query) ''metadata'') ''query_type'' =
          Some (JStr (scan_label query))"
    by (rule mock_query_type)
  moreover have
    "queryType (aiMessage_of clk (createMockSupportResponse rnd query)) = Some (JStr (scan_label query))"
    by (rule aiMessage_queryType_mock)
  moreover have "query = pre @ mid @ post \<and> list_all2 same_letter mid ''order'' \<longrightarrow>
      get_v (get (createMockSupportResponse rnd query) ''metadata'') ''query_type'' =
        Some (JStr ''order'')"
  proof
    assume "query = pre @ mid @ post \<and> list_all2 same_letter mid ''order''"
    then have "contains_ci query ''order''" by (subst contains_ci_iff) blast
    then have "scan_label query = ''order''" by (simp only: scan_label_def if_True)
    then show "get_v (get (createMockSupportResponse rnd query) ''metadata'') ''query_type'' =
        Some (JStr ''order'')"
      using mock_query_type [of rnd query] by simp
  qed
  ultimately show ?thesis by blast
qed

theorem fallback_query_type_by_scan_witness:
  "call_fails NetworkError \<and> list_all2 same_letter ''ORDER'' ''order'' \<and>
   ''Where is my ORDER?'' = ''Where is my '' @ ''ORDER'' @ ''?'' \<and>
   (\<exists>reply. callAgentAPI parse_same rnd_half 0 AGENT_support ''Where is my ORDER?'' NetworkError
              = Inr reply \<and>
            get_v (get reply ''metadata'') ''query_type'' = Some (JStr ''order'') \<and>
            queryType (aiMessage_of (const_clock 2000) reply) = Some (JStr ''order''))"
proof -
  have c: "list_all2 same_letter ''ORDER'' ''order''" by code_simp
  have e: "''Where is my ORDER?'' = ''Where is my '' @ ''ORDER'' @ ''?''" by simp
  have f: "call_fails NetworkError" by simp
  from fallback_query_type_by_scan [OF f, of parse_same rnd_half 0 "''Where is my ORDER?''"
      "const_clock 2000" "''Where is my ''" "''ORDER''" "''?''"]
  obtain reply where
    r1: "callAgentAPI parse_same rnd_half 0 AGENT_support ''Where is my ORDER?'' NetworkError
           = Inr reply"
    and r2: "get_v (get reply ''metadata'') ''query_type'' =
               Some (JStr (scan_label ''Where is my ORDER?''))"
    and r3: "queryType (aiMessage_of (const_clock 2000) reply) =
               Some (JStr (scan_label ''Where is my ORDER?''))"
    and r4: "''Where is my ORDER?'' = ''Where is my '' @ ''ORDER'' @ ''?'' \<and>
             list_all2 same_letter ''ORDER'' ''order'' \<longrightarrow>
               get_v (get reply ''metadata'') ''query_type'' = Some (JStr ''order'')"
    by blast
  have q: "get_v (get reply ''metadata'') ''query_type'' = Some (JStr ''order'')"
    using r4 c e by blast
  then have "scan_label ''Where is my ORDER?'' = ''order''" using r2 by simp
  then have "queryType (aiMessage_of (const_clock 2000) reply) = Some (JStr ''order'')"
    using r3 by simp
  then show ?thesis using c e f r1 q by blast
qed

text \<open>
  C4 (as amended). A failed feedback call does not reach \<open>handleFeedback\<close> as a
  failure: \<open>callAgentAPI\<close> resolves to the synthesized feedback reply, and the handler
  goes on as after a success. Every message carrying the identifier is marked
  \<open>feedbackSubmitted\<close>, the rest of the state stays, and one request has gone out.
\<close>

theorem feedback_failure_still_marks:
  assumes "find (\<lambda>m. id_msg m = mid) (messages st) = Some m"
    and "responseId m = Some rid" and "truthy rid"
    and "call_fails outcome"
  shows "callAgentAPI parseLLMJson rnd now AGENT_feedback txt outcome =
           Inr (createMockFeedbackResponse rnd now) \<and>
         handleFeedback parseLLMJson rnd now outcome mid ft st =
           (st\<lparr>messages :=
                 map (\<lambda>msg. if id_msg msg = mid then msg\<lparr>feedbackSubmitted := Some True\<rparr>
                            else msg)
                   (messages st)\<rparr>,
            [FeedbackRequest (sessionId st) rid ft]) \<and>
         m\<lparr>feedbackSubmitted := Some True\<rparr>
           \<in> set (messages (fst (handleFeedback parseLLMJson rnd now outcome mid ft st)))"
proof -
  have call: "callAgentAPI parseLLMJson rnd now AGENT_feedback t outcome =
      Inr (createMockFeedbackResponse rnd now)" for t
    using assms(4) by (rule callAgentAPI_feedback_fails)
  have run: "handleFeedback parseLLMJson rnd now outcome mid ft st =
      (st\<lparr>messages :=
            map (\<lambda>msg. if id_msg msg = mid then msg\<lparr>feedbackSubmitted := Some True\<rparr> else msg)
              (messages st)\<rparr>,
       [FeedbackRequest (sessionId st) rid ft])"
    using assms(1-3)
    by (simp add: handleFeedback_def handleFeedback_begin_def handleFeedback_resume_def call)
  have "m \<in> set (messages st)" and "id_msg m = mid"
    using assms(1) by (auto simp: find_Some_iff)
  then have "m\<lparr>feedbackSubmitted := Some True\<rparr>
      \<in> set (map (\<lambda>msg. if id_msg msg = mid then msg\<lparr>feedbackSubmitted := Some True\<rparr> else msg)
               (messages st))"
    by force
  then show ?thesis using call run by simp
qed

theorem feedback_failure_still_marks_witness:
  "find (\<lambda>m. id_msg m = ''msg-2001'') (messages state_one_reply) = Some (messages state_one_reply ! 1) \<and>
   responseId (messages state_one_reply ! 1) = Some (JStr ''resp-2000'') \<and>
   truthy (JStr ''resp-2000'') \<and> call_fails (HttpResponse False (JsonBody JNull)) \<and>
   snd (handleFeedback parse_same rnd_half 3000 (HttpResponse False (JsonBody JNull))
          ''msg-2001'' negative state_one_reply) =
     [FeedbackRequest ''s1'' (JStr ''resp-2000'') negative] \<and>
   (messages state_one_reply ! 1)\<lparr>feedbackSubmitted := Some True\<rparr>
     \<in> set (messages (fst (handleFeedback parse_same rnd_half 3000
                 (HttpResponse False (JsonBody JNull)) ''msg-2001'' negative state_one_reply)))"
proof -
  have a: "find (\<lambda>m. id_msg m = ''msg-2001'') (messages state_one_reply) =
      Some (messages state_one_reply ! 1)"
    by (simp add: state_one_reply_eq)
  have b: "responseId (messages state_one_reply ! 1) = Some (JStr ''resp-2000'')"
    by (simp add: state_one_reply_eq)
  have c: "truthy (JStr ''resp-2000'')" by simp
  have d: "call_fails (HttpResponse False (JsonBody JNull))" by simp
  have e: "sessionId state_one_reply = ''s1''" by (simp add: state_one_reply_eq)
  note run = feedback_failure_still_marks [OF a b c d, of parse_same rnd_half 3000 "[]" negative]
  have s: "snd (handleFeedback parse_same rnd_half 3000 (HttpResponse False (JsonBody JNull))
                  ''msg-2001'' negative state_one_reply) =
             [FeedbackRequest ''s1'' (JStr ''resp-2000'') negative]"
    using run by (simp add: e)
  have m: "(messages state_one_reply ! 1)\<lparr>feedbackSubmitted := Some True\<rparr>
      \<in> set (messages (fst (handleFeedback parse_same rnd_half 3000
                  (HttpResponse False (JsonBody JNull)) ''msg-2001'' negative state_one_reply)))"
    using run by blast
  show ?thesis using a b c d s m by blast
qed

text \<open>
  C4 as stated fails: after the exchange of \<open>state_one_reply\<close>, a feedback call that
  fails for want of a network leaves the assistant message marked.
\<close>

theorem feedback_failure_still_marks_counterexample:
  "call_fails NetworkError \<and>
   map feedbackSubmitted (messages state_one_reply) = [None, None] \<and>
   map feedbackSubmitted
     (messages (fst (handleFeedback parse_same rnd_half 3000 NetworkError ''msg-2001'' positive
                       state_one_reply))) = [None, Some True]"
  by (simp add: state_one_reply_eq handleFeedback_def handleFeedback_begin_def
        handleFeedback_resume_def callAgentAPI_feedback_fails)

text \<open>
  C5 (as amended). Where no message carries the identifier, or the first message that
  carries it (the one \<^verbatim>\<open>find\<close> returns) has no response identifier or a falsy one,
  \<open>handleFeedback\<close> returns at its guard: the state, hence the message list, is the
  same and no request is sent.
\<close>

theorem feedback_guard_noop:
  assumes "(\<forall>m\<in>set (messages st). id_msg m \<noteq> mid) \<or>
           (\<exists>m. find (\<lambda>m. id_msg m = mid) (messages st) = Some m \<and> \<not> truthy_v (responseId m))"
  shows "handleFeedback_begin mid ft st = (st, []) \<and>
         handleFeedback parseLLMJson rnd now outcome mid ft st = (st, [])"
proof -
  have "handleFeedback_begin mid ft st = (st, [])"
    using assms
  proof
    assume "\<forall>m\<in>set (messages st). id_msg m \<noteq> mid"
    then have "find (\<lambda>m. id_msg m = mid) (messages st) = None"
      by (simp only: find_id_None)
    then show ?thesis by (simp add: handleFeedback_begin_def)
  next
    assume "\<exists>m. find (\<lambda>m. id_msg m = mid) (messages st) = Some m \<and> \<not> truthy_v (responseId m)"
    then obtain m where "find (\<lambda>m. id_msg m = mid) (messages st) = Some m"
      and "\<not> truthy_v (responseId m)" by blast
    then show ?thesis
      by (cases "responseId m") (simp_all add: handleFeedback_begin_def)
  qed
  then show ?thesis by (simp add: handleFeedback_def)
qed

theorem feedback_guard_noop_witness:
  "''msg-7777'' \<notin> set (map id_msg (messages state_one_reply)) \<and>
   handleFeedback parse_same rnd_half 3000 (HttpResponse True (JsonBody (JStr ''ok''))) ''msg-7777''
     positive state_one_reply = (state_one_reply, []) \<and>
   find (\<lambda>m. id_msg m = ''msg-1000'') (messages state_one_reply) = Some (messages state_one_reply ! 0) \<and>
   \<not> truthy_v (responseId (messages state_one_reply ! 0)) \<and>
   handleFeedback parse_same rnd_half 3000 (HttpResponse True (JsonBody (JStr ''ok''))) ''msg-1000''
     positive state_one_reply = (state_one_reply, [])"
proof -
  have a: "\<forall>m\<in>set (messages state_one_reply). id_msg m \<noteq> ''msg-7777''"
    by (simp add: state_one_reply_eq)
  have a': "''msg-7777'' \<notin> set (map id_msg (messages state_one_reply))"
    by (simp add: state_one_reply_eq)
  have b: "find (\<lambda>m. id_msg m = ''msg-1000'') (messages state_one_reply) =
      Some (messages state_one_reply ! 0)"
    by (simp add: state_one_reply_eq)
  have c: "\<not> truthy_v (responseId (messages state_one_reply ! 0))"
    by (simp add: state_one_reply_eq)
  have d: "\<exists>m. find (\<lambda>m. id_msg m = ''msg-1000'') (messages state_one_reply) = Some m \<and>
      \<not> truthy_v (responseId m)"
    using b c by blast
  show ?thesis
    using a a' b c
      feedback_guard_noop [of state_one_reply "''msg-7777''" positive parse_same rnd_half 3000
        "HttpResponse True (JsonBody (JStr ''ok''))"]
      feedback_guard_noop [of state_one_reply "''msg-1000''" positive parse_same rnd_half 3000
        "HttpResponse True (JsonBody (JStr ''ok''))"]
      d
    by blast
qed

text \<open>
  C5 as stated fails: in \<open>state_id_clash\<close> the third message, the user's, has no
  response identifier, but shares its identifier msg-2001 with the assistant message
  before it. Feedback submitted with its identifier finds the assistant message, sends a
  request and marks both.
\<close>

theorem feedback_guard_noop_counterexample:
  "isUser (messages state_id_clash ! 2) \<and> responseId (messages state_id_clash ! 2) = None \<and>
   id_msg (messages state_id_clash ! 2) = ''msg-2001'' \<and>
   snd (handleFeedback parse_same rnd_half 3000 (HttpResponse True (JsonBody (JStr ''ok'')))
          (id_msg (messages state_id_clash ! 2)) positive state_id_clash) =
     [FeedbackRequest ''s1'' (JStr ''resp-2000'') positive] \<and>
   map feedbackSubmitted (messages state_id_clash) = [None, None, None] \<and>
   map feedbackSubmitted
     (messages (fst (handleFeedback parse_same rnd_half 3000
                       (HttpResponse True (JsonBody (JStr ''ok'')))
                       (id_msg (messages state_id_clash ! 2)) positive state_id_clash))) =
     [None, Some True, Some True]"
proof -
  have call: "callAgentAPI parse_same rnd_half 3000 AGENT_feedback []
      (HttpResponse True (JsonBody (JStr ''ok''))) = Inr (JStr ''ok'')"
    by (simp add: callAgentAPI_def callAgentAPI_try_def extract_parsedData_def or_else_def
          AGENT_support_def AGENT_feedback_def)
  show ?thesis
    by (simp add: state_id_clash_eq handleFeedback_def handleFeedback_begin_def
          handleFeedback_resume_def call)
qed

text \<open>
  C6 (as amended). When the feedback call has resolved, every message whose identifier
  is the submitted one has \<open>feedbackSubmitted\<close> true, shows no feedback controls and keeps
  all its other fields; every message with another identifier is the same as before; the
  list keeps its length and the rest of the state stays.
\<close>

theorem feedback_success_frame:
  assumes "i < length (messages st)"
  shows "length (messages (handleFeedback_resume mid (Inr r) st)) = length (messages st) \<and>
         (id_msg (messages st ! i) = mid \<longrightarrow>
            messages (handleFeedback_resume mid (Inr r) st) ! i =
              (messages st ! i)\<lparr>feedbackSubmitted := Some True\<rparr> \<and>
            feedbackSubmitted (messages (handleFeedback_resume mid (Inr r) st) ! i) = Some True \<and>
            \<not> shows_feedback_controls (messages (handleFeedback_resume mid (Inr r) st) ! i)) \<and>
         (id_msg (messages st ! i) \<noteq> mid \<longrightarrow>
            messages (handleFeedback_resume mid (Inr r) st) ! i = messages st ! i) \<and>
         inputText (handleFeedback_resume mid (Inr r) st) = inputText st \<and>
         isTyping (handleFeedback_resume mid (Inr r) st) = isTyping st \<and>
         sessionId (handleFeedback_resume mid (Inr r) st) = sessionId st"
  using assms by (simp add: handleFeedback_resume_def shows_feedback_controls_def)

theorem feedback_success_frame_witness:
  "(1::nat) < length (messages state_one_reply) \<and> id_msg (messages state_one_reply ! 1) = ''msg-2001'' \<and>
   messages (handleFeedback_resume ''msg-2001'' (Inr (JStr ''ok'')) state_one_reply) ! 1 =
     (messages state_one_reply ! 1)\<lparr>feedbackSubmitted := Some True\<rparr> \<and>
   \<not> shows_feedback_controls
       (messages (handleFeedback_resume ''msg-2001'' (Inr (JStr ''ok'')) state_one_reply) ! 1) \<and>
   (0::nat) < length (messages state_one_reply) \<and> id_msg (messages state_one_reply ! 0) \<noteq> ''msg-2001'' \<and>
   messages (handleFeedback_resume ''msg-2001'' (Inr (JStr ''ok'')) state_one_reply) ! 0 =
     messages state_one_reply ! 0"
proof -
  have a: "(1::nat) < length (messages state_one_reply)"
    and b: "id_msg (messages state_one_reply ! 1) = ''msg-2001''"
    and c: "(0::nat) < length (messages state_one_reply)"
    and d: "id_msg (messages state_one_reply ! 0) \<noteq> ''msg-2001''"
    by (simp_all add: state_one_reply_eq)
  show ?thesis
    using a b c d
      feedback_success_frame [OF a, of "''msg-2001''" "JStr ''ok''"]
      feedback_success_frame [OF c, of "''msg-2001''" "JStr ''ok''"]
    by blast
qed

text \<open>
  C6 as stated fails: in \<open>state_two_replies\<close> two assistant messages carry the
  identifier msg-2001. Feedback on it finds the first (index 2) and marks the second
  (index 3) as well, a message other than the target.
\<close>

theorem feedback_success_frame_counterexample:
  "map id_msg (messages state_two_replies) = [''msg-1000'', ''msg-1001'', ''msg-2001'', ''msg-2001''] \<and>
   find (\<lambda>m. id_msg m = ''msg-2001'') (messages state_two_replies) = Some (messages state_two_replies ! 2) \<and>
   messages state_two_replies ! 3 \<noteq> messages state_two_replies ! 2 \<and>
   feedbackSubmitted (messages state_two_replies ! 3) = None \<and>
   feedbackSubmitted
     (messages (fst (handleFeedback parse_same rnd_half 3000 (HttpResponse True (JsonBody (JStr ''ok'')))
                       ''msg-2001'' positive state_two_replies)) ! 3) = Some True"
proof -
  have call: "callAgentAPI parse_same rnd_half 3000 AGENT_feedback []
      (HttpResponse True (JsonBody (JStr ''ok''))) = Inr (JStr ''ok'')"
    by (simp add: callAgentAPI_def callAgentAPI_try_def extract_parsedData_def or_else_def
          AGENT_support_def AGENT_feedback_def)
  have neq: "msg_shipping \<noteq> msg_order" by (simp add: msg_shipping_def msg_order_def)
  show ?thesis
    by (simp add: state_two_replies_eq handleFeedback_def handleFeedback_begin_def
          handleFeedback_resume_def call neq)
qed

text \<open>
  C7 (as amended). With every value of \<^verbatim>\<open>Math.random\<close> in \<open>[0, 1)\<close> and the arithmetic
  rounded to doubles as the code does: the synthesized support reply has a confidence
  score in \<open>[0.8, 0.99]\<close> and a processing-time label among 0.5s, 0.6s, ..., 2.0s; the
  synthesized feedback reply has a processing-time label among 0.1s, ..., 0.5s and
  carries no confidence score, neither in its \<^verbatim>\<open>response\<close> block, nor in its
  \<^verbatim>\<open>metadata\<close>, nor at the top.
\<close>

theorem synthesized_ranges:
  assumes "\<forall>i. 0 \<le> rnd i \<and> rnd i < 1"
  shows "(\<exists>c. get_v (get (createMockSupportResponse rnd q) ''response'') ''confidence_score'' =
                Some (JNum c) \<and> 8 / 10 \<le> c \<and> c \<le> 99 / 100) \<and>
         (\<exists>l. get_v (get (createMockSupportResponse rnd q) ''metadata'') ''processing_time'' =
                Some (JStr l) \<and> l \<in> set support_time_labels) \<and>
         (\<exists>l. get_v (get (createMockFeedbackResponse rnd now) ''metadata'') ''processing_time'' =
                Some (JStr l) \<and> l \<in> set feedback_time_labels) \<and>
         get_v (get (createMockFeedbackResponse rnd now) ''response'') ''confidence_score'' = None \<and>
         get_v (get (createMockFeedbackResponse rnd now) ''metadata'') ''confidence_score'' = None \<and>
         get (createMockFeedbackResponse rnd now) ''confidence_score'' = None"
proof -
  have r3: "0 \<le> rnd 3" "rnd 3 < 1" and r4: "0 \<le> rnd 4" "rnd 4 < 1"
    and r0: "0 \<le> rnd 0" "rnd 0 < 1"
    using assms by simp_all
  have "8 / 10 \<le> dbl_add (dbl (8 / 10)) (dbl_mul (rnd 3) (dbl (19 / 100))) \<and>
      dbl_add (dbl (8 / 10)) (dbl_mul (rnd 3) (dbl (19 / 100))) \<le> 99 / 100"
    using r3 by (rule confidence_range)
  then have a: "\<exists>c. get_v (get (createMockSupportResponse rnd q) ''response'') ''confidence_score'' =
      Some (JNum c) \<and> 8 / 10 \<le> c \<and> c \<le> 99 / 100"
    by (simp add: mock_response_block)
  have "toFixed1 (dbl_add (dbl (5 / 10)) (dbl_mul (rnd 4) (dbl (15 / 10)))) @ ''s''
      \<in> set support_time_labels"
    using r4 by (rule support_time_in_range)
  then have b: "\<exists>l. get_v (get (createMockSupportResponse rnd q) ''metadata'') ''processing_time'' =
      Some (JStr l) \<and> l \<in> set support_time_labels"
    by (simp add: mock_metadata_block)
  have "toFixed1 (dbl_add (dbl (1 / 10)) (dbl_mul (rnd 0) (dbl (4 / 10)))) @ ''s''
      \<in> set feedback_time_labels"
    using r0 by (rule feedback_time_in_range)
  then have c: "\<exists>l. get_v (get (createMockFeedbackResponse rnd now) ''metadata'') ''processing_time'' =
      Some (JStr l) \<and> l \<in> set feedback_time_labels"
    by (simp add: createMockFeedbackResponse_def)
  have d: "get_v (get (createMockFeedbackResponse rnd now) ''response'') ''confidence_score'' = None"
    "get_v (get (createMockFeedbackResponse rnd now) ''metadata'') ''confidence_score'' = None"
    "get (createMockFeedbackResponse rnd now) ''confidence_score'' = None"
    by (simp_all add: createMockFeedbackResponse_def)
  show ?thesis using a b c d by blast
qed

theorem synthesized_ranges_witness:
  "(\<forall>i. 0 \<le> rnd_mixed i \<and> rnd_mixed i < 1) \<and>
   get_v (get (createMockSupportResponse rnd_mixed ''Hello'') ''response'') ''confidence_score'' =
     Some (JNum (7419680386092893 / 9007199254740992)) \<and>
   get_v (get (createMockSupportResponse rnd_mixed ''Hello'') ''metadata'') ''processing_time'' =
     Some (JStr ''1.8s'') \<and>
   get_v (get (createMockSupportResponse rnd_mixed ''Hello'') ''response'') ''suggested_topics'' =
     Some (JArr [JStr ''Account'', JStr ''Account'', JStr ''Account'']) \<and>
   get_v (get (createMockFeedbackResponse rnd_five_eighths 3000) ''metadata'') ''processing_time'' =
     Some (JStr ''0.3s'') \<and>
   (\<exists>c. get_v (get (createMockSupportResponse rnd_mixed ''Hello'') ''response'')
          ''confidence_score'' = Some (JNum c) \<and> 8 / 10 \<le> c \<and> c \<le> 99 / 100) \<and>
   (\<exists>l. get_v (get (createMockFeedbackResponse rnd_five_eighths 3000) ''metadata'')
          ''processing_time'' = Some (JStr l) \<and> l \<in> set feedback_time_labels) \<and>
   get_v (get (createMockFeedbackResponse rnd_five_eighths 3000) ''response'') ''confidence_score''
     = None"
proof -
  have a: "\<forall>i. 0 \<le> rnd_mixed i \<and> rnd_mixed i < 1"
    by (simp add: rnd_mixed_def)
  have t: "get_v (get (createMockSupportResponse rnd_mixed ''Hello'') ''response'')
      ''suggested_topics'' = Some (JArr [JStr ''Account'', JStr ''Account'', JStr ''Account''])"
    by (simp only: mock_response_block rounding_samples One_nat_def [symmetric]) simp
  have a': "\<forall>i. 0 \<le> rnd_five_eighths i \<and> rnd_five_eighths i < 1"
    by (simp add: rnd_five_eighths_def)
  have b: "get_v (get (createMockSupportResponse rnd_mixed ''Hello'') ''response'')
      ''confidence_score'' = Some (JNum (7419680386092893 / 9007199254740992))"
    by (simp only: mock_response_block rounding_samples) simp
  have c: "get_v (get (createMockSupportResponse rnd_mixed ''Hello'') ''metadata'')
      ''processing_time'' = Some (JStr ''1.8s'')"
    by (simp only: mock_metadata_block rounding_samples) simp
  have d: "get_v (get (createMockFeedbackResponse rnd_five_eighths 3000) ''metadata'')
      ''processing_time'' = Some (JStr ''0.3s'')"
    by (simp only: createMockFeedbackResponse_def rounding_samples) simp
  show ?thesis
    using a b c d t synthesized_ranges [OF a, of "''Hello''" 3000]
      synthesized_ranges [OF a', of "''Hello''" 3000]
    by blast
qed

text \<open>
  C7 as stated fails for the feedback endpoint: its synthesized reply has no confidence
  score, neither in its \<^verbatim>\<open>response\<close> block, nor in its \<^verbatim>\<open>metadata\<close>, nor at the top.
\<close>

theorem synthesized_ranges_counterexample:
  "get_v (get (createMockFeedbackResponse rnd_half 3000) ''response'') ''confidence_score'' = None \<and>
   get_v (get (createMockFeedbackResponse rnd_half 3000) ''metadata'') ''confidence_score'' = None \<and>
   get (createMockFeedbackResponse rnd_half 3000) ''confidence_score'' = None"
  by (simp add: createMockFeedbackResponse_def)

text \<open>
  C8, evaluated on the code: a body whose \<^verbatim>\<open>response\<close> is the bare text of the answer
  reaches the string branch of the normalizer, which hands the text to
  \<open>createMockSupportResponse\<close> as if it were the query. The reply shows the general
  template, not the text received.
\<close>

theorem bare_string_reply_replaced:
  "extract_parsedData parse_same body_bare_text = Some (JStr ''Your parcel arrives on Monday.'') \<and>
   callAgentAPI parse_same rnd_half 0 AGENT_support ''When does my parcel arrive?''
     (HttpResponse True (JsonBody body_bare_text)) =
     Inr (createMockSupportResponse rnd_half ''Your parcel arrives on Monday.'') \<and>
   get_v (get (createMockSupportResponse rnd_half ''Your parcel arrives on Monday.'') ''response'')
     ''message'' = Some (JStr msg_general) \<and>
   text_msg (aiMessage_of (const_clock 2000)
               (createMockSupportResponse rnd_half ''Your parcel arrives on Monday.'')) =
     JStr msg_general \<and>
   msg_general \<noteq> ''Your parcel arrives on Monday.''"
proof -
  have a: "extract_parsedData parse_same body_bare_text = Some (JStr ''Your parcel arrives on Monday.'')"
    by (simp add: extract_parsedData_def body_bare_text_def)
  have b: "validateSupportAgentResponse rnd_half (Some (JStr ''Your parcel arrives on Monday.'')) =
      createMockSupportResponse rnd_half ''Your parcel arrives on Monday.''"
    by (simp add: validateSupportAgentResponse_def is_string_def string_of_def)
  have c: "callAgentAPI parse_same rnd_half 0 AGENT_support ''When does my parcel arrive?''
      (HttpResponse True (JsonBody body_bare_text)) =
      Inr (createMockSupportResponse rnd_half ''Your parcel arrives on Monday.'')"
    using mock_not_null [of rnd_half "''Your parcel arrives on Monday.''"]
    by (cases "createMockSupportResponse rnd_half ''Your parcel arrives on Monday.''")
       (simp_all add: callAgentAPI_def callAgentAPI_try_def a b createMockSupportResponse_def
          Let_def)
  have n: "\<not> contains_ci ''Your parcel arrives on Monday.'' ''order''"
    "\<not> contains_ci ''Your parcel arrives on Monday.'' ''ship''"
    "\<not> contains_ci ''Your parcel arrives on Monday.'' ''return''"
    by code_simp+
  have d: "get_v (get (createMockSupportResponse rnd_half ''Your parcel arrives on Monday.'')
      ''response'') ''message'' = Some (JStr msg_general)"
    by (simp only: mock_response_block n if_False) simp
  have e: "text_msg (aiMessage_of (const_clock 2000)
      (createMockSupportResponse rnd_half ''Your parcel arrives on Monday.'')) = JStr msg_general"
    by (simp only: aiMessage_of_mock [OF rnd_half_unit] n if_False) simp
  have f: "msg_general \<noteq> ''Your parcel arrives on Monday.''"
    by (simp add: msg_general_def)
  show ?thesis using a c d e f by blast
qed

text \<open>
  C9 (as amended). In a session, started from the empty conversation, in which no reply
  brings a truthy \<^verbatim>\<open>response_id\<close> and the clock readings that become response
  identifiers are all different, the assistant messages have pairwise different response
  identifiers. A truthy \<^verbatim>\<open>response_id\<close> of the reply is used as it is. Two response
  identifiers made from the clock are equal exactly when the two clock readings are, in
  src/App.tsx and in src/unnamed/part_000.
\<close>

theorem clock_response_ids_distinct:
  assumes "list_all local_reply evs" and "distinct (concat (map id_clock evs))"
  shows "distinct (response_ids (messages (run evs (initial_state sid)))) \<and>
         (supplied_id r = Some v \<longrightarrow> responseId (aiMessage_of clk r) = Some v) \<and>
         (supplied_id r = None \<and> supplied_id r' = None \<longrightarrow>
            (responseId (aiMessage_of clk r) = responseId (aiMessage_of clk' r')) =
              (clk 2 = clk' 2)) \<and>
         (aiMessage_part0 clk w = Inr m \<and> aiMessage_part0 clk' w' = Inr m' \<longrightarrow>
            (responseId m = responseId m') = (clk 2 = clk' 2))"
proof -
  have a: "distinct (response_ids (messages (run evs (initial_state sid))))"
    using assms by (rule run_response_ids_distinct)
  have b: "supplied_id r = Some v \<longrightarrow> responseId (aiMessage_of clk r) = Some v"
    by (simp add: responseId_supplied)
  have c: "supplied_id r = None \<and> supplied_id r' = None \<longrightarrow>
      (responseId (aiMessage_of clk r) = responseId (aiMessage_of clk' r')) = (clk 2 = clk' 2)"
    using clock_id_inj [of "clk 2" "clk' 2"] by (auto simp: responseId_local)
  have d: "aiMessage_part0 clk w = Inr m \<and> aiMessage_part0 clk' w' = Inr m' \<longrightarrow>
      (responseId m = responseId m') = (clk 2 = clk' 2)"
    using clock_id_inj [of "clk 2" "clk' 2"] responseId_part0 [of clk w m]
      responseId_part0 [of clk' w' m']
    by auto
  show ?thesis using a b c d by blast
qed

theorem clock_response_ids_distinct_witness:
  "list_all local_reply session_local \<and> distinct (concat (map id_clock session_local)) \<and>
   response_ids (messages (run session_local (initial_state ''s1''))) =
     [JStr ''resp-2000'', JStr ''resp-6000''] \<and>
   distinct (response_ids (messages (run session_local (initial_state ''s1'')))) \<and>
   supplied_id reply_canonical = Some (JStr ''r-1'') \<and>
   responseId (aiMessage_of (const_clock 2000) reply_canonical) = Some (JStr ''r-1'') \<and>
   supplied_id (JObj [(''message'', JStr ''Hi'')]) = None \<and>
   responseId (aiMessage_of (const_clock 2000) (JObj [(''message'', JStr ''Hi'')])) \<noteq>
     responseId (aiMessage_of (const_clock 6000) (JObj [(''message'', JStr ''Hi'')])) \<and>
   aiMessage_part0 (const_clock 2000) (Some JNull) = Inl TypeError"
proof -
  have s: "supplied_id (JObj [(''message'', JStr ''Hi'')]) = None"
    by (simp add: supplied_id_def or_else_def)
  have sc: "supplied_id reply_canonical = Some (JStr ''r-1'')"
    by (simp add: supplied_id_def or_else_def reply_canonical_def)
  have l: "list_all local_reply session_local" by (simp add: session_local_def s)
  have ic: "concat (map id_clock session_local) = [2000, 6000]"
    by (simp add: session_local_def const_clock_def)
  then have d: "distinct (concat (map id_clock session_local))" by simp
  have ids: "response_ids (messages (run session_local (initial_state ''s1''))) =
      [JStr ''resp-2000'', JStr ''resp-6000'']"
    using run_response_ids [OF l, of "initial_state ''s1''"]
    by (simp add: ic clock_id_def decimal_samples initial_state_def response_ids_def
          List.map_filter_def)
  have n: "const_clock 2000 2 \<noteq> const_clock 6000 2" by (simp add: const_clock_def)
  have p: "aiMessage_part0 (const_clock 2000) (Some JNull) = Inl TypeError"
    by (simp add: aiMessage_part0_def)
  note th =
    clock_response_ids_distinct [OF l d, where sid = "''s1''" and r = reply_canonical
      and v = "JStr ''r-1''" and clk = "const_clock 2000"]
    clock_response_ids_distinct [OF l d, where sid = "''s1''"
      and r = "JObj [(''message'', JStr ''Hi'')]" and r' = "JObj [(''message'', JStr ''Hi'')]"
      and clk = "const_clock 2000" and clk' = "const_clock 6000"]
  have t1: "distinct (response_ids (messages (run session_local (initial_state ''s1''))))"
    using th(1) by blast
  have t2: "responseId (aiMessage_of (const_clock 2000) reply_canonical) = Some (JStr ''r-1'')"
    using th(1) sc by blast
  have t3: "responseId (aiMessage_of (const_clock 2000) (JObj [(''message'', JStr ''Hi'')])) \<noteq>
      responseId (aiMessage_of (const_clock 6000) (JObj [(''message'', JStr ''Hi'')]))"
    using th(2) s n by blast
  show ?thesis using l d ids t1 sc t2 s t3 p by blast
qed

text \<open>
  C9 as stated fails in two ways. In \<open>state_same_ids\<close>, two exchanges answered with a
  body that carries the response identifier r-1, the two assistant messages (index 1
  and 3) are different messages with the same response identifier. In
  \<open>state_two_replies\<close>, two replies without an identifier handled in the same
  millisecond, both assistant messages (index 2 and 3) get resp-2000.
\<close>

theorem clock_response_ids_distinct_counterexample:
  "map isUser (messages state_same_ids) = [True, False, True, False] \<and>
   id_msg (messages state_same_ids ! 1) \<noteq> id_msg (messages state_same_ids ! 3) \<and>
   responseId (messages state_same_ids ! 1) = Some (JStr ''r-1'') \<and>
   responseId (messages state_same_ids ! 3) = Some (JStr ''r-1'') \<and>
   map isUser (messages state_two_replies) = [True, True, False, False] \<and>
   text_msg (messages state_two_replies ! 2) \<noteq> text_msg (messages state_two_replies ! 3) \<and>
   responseId (messages state_two_replies ! 2) = Some (JStr ''resp-2000'') \<and>
   responseId (messages state_two_replies ! 3) = Some (JStr ''resp-2000'')"
proof -
  have neq: "msg_order \<noteq> msg_shipping" by (simp add: msg_shipping_def msg_order_def)
  show ?thesis by (simp add: state_same_ids_eq state_two_replies_eq neq)
qed

text \<open>
  C10. For a text that is empty or all white space, \<open>handleSendMessage\<close> returns at its
  guard: the state is the same (no message appended, input text and pending flag as
  before) and no request is sent, also when the text comes from the form or from a
  suggested-topic button.
\<close>

theorem blank_send_is_noop:
  assumes "\<forall>c\<in>set text. is_ws c"
  shows "handleSendMessage_begin clk text st = (st, []) \<and>
         handleSendMessage parseLLMJson rnd clk clk' outcome text st = (st, []) \<and>
         ui_dispatch clk (SuggestedTopicClick text) st = (st, [])"
  using trim_blank [OF assms]
  by (simp add: handleSendMessage_def handleSendMessage_begin_def ui_dispatch_def)

theorem blank_send_is_noop_witness:
  "list_all is_ws [CHR '' '', CHR 0x09, CHR '' ''] \<and>
   handleSendMessage parse_same rnd_half (const_clock 3000) (const_clock 4000) NetworkError
     [CHR '' '', CHR 0x09, CHR '' ''] state_one_reply = (state_one_reply, []) \<and>
   handleSendMessage parse_same rnd_half (const_clock 3000) (const_clock 4000) NetworkError
     [] state_one_reply = (state_one_reply, [])"
proof -
  have a: "\<forall>c\<in>set [CHR '' '', CHR 0x09, CHR '' '']. is_ws c" by (simp add: is_ws_def)
  have a': "list_all is_ws [CHR '' '', CHR 0x09, CHR '' '']" by (simp add: is_ws_def)
  have b: "\<forall>c\<in>set []. is_ws c" by simp
  show ?thesis
    using a'
      blank_send_is_noop [OF a, of "const_clock 3000" state_one_reply parse_same rnd_half
        "const_clock 4000" NetworkError]
      blank_send_is_noop [OF b, of "const_clock 3000" state_one_reply parse_same rnd_half
        "const_clock 4000" NetworkError]
    by blast
qed

end
